theory Spec2Isabelle
  imports Main
begin

section \<open>ExpenseTracker: values of the JavaScript layer\<close>

text \<open>
  The handlers of \<^verbatim>\<open>routes.js\<close> compute with what the JSON body of a request holds and with
  JavaScript's numbers. Both are modelled before the data of \<^verbatim>\<open>models.js\<close>.
\<close>

subsection \<open>Numbers\<close>

text \<open>
  A JavaScript number is an IEEE-754 double. Every finite double is an integer multiple of
  2 to the power -1074, so a finite double is held as that integer: \<open>Fin n\<close> is the number
  \<open>n\<close> times 2 to the power -1074, the integer \<open>z\<close> is \<open>Fin (z * scale)\<close>, and 2 to the
  power 1024, the first magnitude that no longer is finite, is \<open>overflow\<close>. The two zeros of
  IEEE-754 are one value here; no handler can tell them apart.

  An arithmetic result is rounded to the nearest double, ties to the even significand
  (\<open>round53\<close>): \<open>excess a\<close> is the number of low bits that a significand of 53 bits cannot
  hold, \<open>nearestEven\<close> drops them, and a magnitude that reaches \<open>overflow\<close> is an infinity.
\<close>

datatype number = Fin int | PInf | NInf | NaN

definition scale :: int where
  "scale = 2 ^ 1074"

definition overflow :: int where
  "overflow = 2 ^ 2098"

function excess :: "int \<Rightarrow> nat" where
  "excess a = (if a < 2 ^ 53 then 0 else Suc (excess (a div 2)))"
  by pat_completeness auto
termination
  by (relation "measure nat") auto

declare excess.simps [simp del]

definition nearestEven :: "int \<Rightarrow> nat \<Rightarrow> int" where
  "nearestEven a k =
     (let q = a div 2 ^ k; r = a mod 2 ^ k
      in if 2 * r < 2 ^ k then q
         else if 2 * r > 2 ^ k then q + 1
         else if even q then q else q + 1)"

text \<open>The magnitude \<open>a\<close>, rounded to 53 significant bits.\<close>

definition mag :: "int \<Rightarrow> int" where
  "mag a = nearestEven a (excess a) * 2 ^ excess a"

definition round53 :: "int \<Rightarrow> number" where
  "round53 n =
     (if mag \<bar>n\<bar> \<ge> overflow then (if n < 0 then NInf else PInf)
      else Fin (if n < 0 then - mag \<bar>n\<bar> else mag \<bar>n\<bar>))"

text \<open>The double nearest to an integer: the value of a literal such as \<^verbatim>\<open>0\<close> or \<^verbatim>\<open>100\<close>.\<close>

definition num :: "int \<Rightarrow> number" where
  "num z = round53 (z * scale)"

text \<open>\<^verbatim>\<open>-x\<close>, \<^verbatim>\<open>x + y\<close>, \<^verbatim>\<open>x - y\<close> and \<^verbatim>\<open>x < y\<close> on numbers.\<close>

fun num_neg :: "number \<Rightarrow> number" where
  "num_neg (Fin a) = Fin (- a)"
| "num_neg PInf = NInf"
| "num_neg NInf = PInf"
| "num_neg NaN = NaN"

fun num_add :: "number \<Rightarrow> number \<Rightarrow> number" where
  "num_add (Fin a) (Fin b) = round53 (a + b)"
| "num_add NaN y = NaN"
| "num_add x NaN = NaN"
| "num_add PInf NInf = NaN"
| "num_add NInf PInf = NaN"
| "num_add PInf y = PInf"
| "num_add NInf y = NInf"
| "num_add x PInf = PInf"
| "num_add x NInf = NInf"

definition num_sub :: "number \<Rightarrow> number \<Rightarrow> number" where
  "num_sub x y = num_add x (num_neg y)"

fun num_less :: "number \<Rightarrow> number \<Rightarrow> bool" where
  "num_less (Fin a) (Fin b) = (a < b)"
| "num_less NaN y = False"
| "num_less x NaN = False"
| "num_less x NInf = False"
| "num_less PInf y = False"
| "num_less NInf y = True"
| "num_less x PInf = True"

text \<open>A value that a double can hold: rounding leaves it as it is.\<close>

fun isDouble :: "number \<Rightarrow> bool" where
  "isDouble (Fin a) = (round53 a = Fin a)"
| "isDouble x = True"

text \<open>The number \<open>n\<close> is exactly the integer \<open>z\<close>.\<close>

definition represents :: "number \<Rightarrow> int \<Rightarrow> bool" where
  "represents n z = (n = Fin (z * scale))"

subsection \<open>Request values\<close>

text \<open>
  A field of a request body that a handler uses as a number or as a date is a \<open>jsval\<close>:
  absent (\<^verbatim>\<open>undefined\<close>), \<^verbatim>\<open>null\<close>, a number or a string. A field that a handler uses as a
  string or as a reference is a \<open>string option\<close>, \<open>None\<close> for \<^verbatim>\<open>undefined\<close> and \<^verbatim>\<open>null\<close>.
  Booleans, arrays and objects as field values, and a number where a string belongs, are
  outside the model.
\<close>

datatype jsval = Undefined | Null | Num number | Str string

datatype error =
    Error string
  | ValidationError
  | CastError
  | DuplicateKeyError

type_synonym oid = nat

text \<open>
  What lies beneath the handlers and is not code of the repository is a parameter:
  \<^item> \<open>castObjectId\<close>: Mongoose's cast of a string to an ObjectId (an ObjectId is a \<open>nat\<close>);
  \<^item> \<open>castDate\<close>: Mongoose's cast of a value to a Date, which fails, gives \<^verbatim>\<open>null\<close>, or gives
    a time value in milliseconds;
  \<^item> \<open>stringToNumber\<close>: JavaScript's conversion of a string to a number (\<^verbatim>\<open>Number(s)\<close>);
  \<^item> \<open>numberToString\<close>: JavaScript's conversion of a number to a string (\<^verbatim>\<open>String(n)\<close>);
  \<^item> \<open>dateNow\<close>: \<^verbatim>\<open>Date.now\<close>;
  \<^item> \<open>newObjectId\<close>: the \<^verbatim>\<open>_id\<close> that Mongoose generates for a new account or debt.
\<close>

record env =
  castObjectId :: "string \<Rightarrow> oid option"
  castDate :: "jsval \<Rightarrow> error + int option"
  stringToNumber :: "string \<Rightarrow> number"
  numberToString :: "number \<Rightarrow> string"
  dateNow :: int
  newObjectId :: oid

text \<open>
  \<^verbatim>\<open>!x\<close> is true for \<^verbatim>\<open>undefined\<close>, \<^verbatim>\<open>null\<close>, the empty string, the number 0 and \<^verbatim>\<open>NaN\<close>; a
  non-empty string, also \<^verbatim>\<open>"0"\<close>, is truthy.
\<close>

definition truthy_str :: "string option \<Rightarrow> bool" where
  "truthy_str x = (case x of None \<Rightarrow> False | Some v \<Rightarrow> v \<noteq> [])"

fun truthy :: "jsval \<Rightarrow> bool" where
  "truthy Undefined = False"
| "truthy Null = False"
| "truthy (Num n) = (n \<noteq> num 0 \<and> n \<noteq> NaN)"
| "truthy (Str v) = (v \<noteq> [])"

text \<open>\<^verbatim>\<open>Number(x)\<close>, the conversion that \<^verbatim>\<open>-\<close>, unary \<^verbatim>\<open>-\<close> and \<^verbatim>\<open>isNaN\<close> apply to an operand.\<close>

fun toNumber :: "env \<Rightarrow> jsval \<Rightarrow> number" where
  "toNumber e Undefined = NaN"
| "toNumber e Null = num 0"
| "toNumber e (Num n) = n"
| "toNumber e (Str v) = stringToNumber e v"

definition js_isNaN :: "env \<Rightarrow> jsval \<Rightarrow> bool" where
  "js_isNaN e x = (toNumber e x = NaN)"

text \<open>
  \<^verbatim>\<open>b + a\<close>, \<^verbatim>\<open>b - a\<close> and \<^verbatim>\<open>-a\<close> for a number \<open>b\<close> and a request value \<open>a\<close>. With a string
  operand \<^verbatim>\<open>+\<close> concatenates; \<^verbatim>\<open>-\<close> always converts to numbers.
\<close>

fun js_add :: "env \<Rightarrow> number \<Rightarrow> jsval \<Rightarrow> jsval" where
  "js_add e b (Str v) = Str (numberToString e b @ v)"
| "js_add e b a = Num (num_add b (toNumber e a))"

definition js_sub :: "env \<Rightarrow> number \<Rightarrow> jsval \<Rightarrow> jsval" where
  "js_sub e b a = Num (num_sub b (toNumber e a))"

definition js_neg :: "env \<Rightarrow> jsval \<Rightarrow> jsval" where
  "js_neg e a = Num (num_neg (toNumber e a))"

section \<open>The data model of models.js\<close>

text \<open>
  The three Mongoose schemas become records. A field that the schema marks \<^verbatim>\<open>required\<close>
  or that every handler fills has a plain type; a field that a stored document may lack is
  an \<open>option\<close>. Field names carry a prefix (\<open>t_\<close> for Transaction, \<open>d_\<close> for Debt) because
  the schemas share names such as \<^verbatim>\<open>description\<close> and \<^verbatim>\<open>type\<close>. A date is a time value in
  milliseconds.

  A collection of bank accounts or debts is a list of (\<^verbatim>\<open>_id\<close>, document) pairs in
  insertion order. The \<^verbatim>\<open>_id\<close> of a Transaction is never read by any handler, so the
  Transaction collection is the list of its documents. One request is handled at a time
  on the whole store; interleavings of concurrent requests are left to the database and
  are outside the model.
\<close>

record transaction =
  t_description :: string
  t_amount :: number
  t_category :: "string option"
  t_date :: "int option"
  t_type :: string
  t_sourceAccount :: "oid option"
  t_destinationAccount :: "oid option"
  t_debt :: "oid option"

record bankAccount =
  accountNumber :: string
  balance :: number

record debt =
  d_description :: string
  d_totalAmount :: number
  d_settledAmount :: number
  d_pendingAmount :: number
  d_status :: string
  d_type :: string
  d_date :: int
  d_debtor :: "string option"
  d_debtorAccount :: "oid option"
  d_creditorAccount :: "oid option"
  d_creditor :: "string option"
  d_isRecurring :: bool
  d_frequency :: "string option"
  d_interval :: "number option"
  d_nextDueDate :: "int option"

record store =
  transactions :: "transaction list"
  bankAccounts :: "(oid \<times> bankAccount) list"
  debts :: "(oid \<times> debt) list"

subsection \<open>Mongoose: casting, validation, queries and writes\<close>

text \<open>A path of type ObjectId: an absent value stays absent, a string must cast.\<close>

definition castRef :: "env \<Rightarrow> string option \<Rightarrow> error + oid option" where
  "castRef e x =
     (case x of
        None \<Rightarrow> Inr None
      | Some v \<Rightarrow> (case castObjectId e v of None \<Rightarrow> Inl CastError | Some i \<Rightarrow> Inr (Some i)))"

text \<open>
  \<^verbatim>\<open>Model.findById(id)\<close>: \<^verbatim>\<open>undefined\<close> finds nothing, a string that does not cast throws,
  otherwise the document with that \<^verbatim>\<open>_id\<close>, if any, is returned.
\<close>

definition findById :: "env \<Rightarrow> (oid \<times> 'a) list \<Rightarrow> string option \<Rightarrow> error + (oid \<times> 'a) option" where
  "findById e coll x =
     (case castRef e x of
        Inl err \<Rightarrow> Inl err
      | Inr None \<Rightarrow> Inr None
      | Inr (Some i) \<Rightarrow> (case map_of coll i of None \<Rightarrow> Inr None | Some d \<Rightarrow> Inr (Some (i, d))))"

text \<open>\<^verbatim>\<open>doc.save()\<close> of a loaded document: the document with that \<^verbatim>\<open>_id\<close> is replaced.\<close>

fun updateById :: "oid \<Rightarrow> 'a \<Rightarrow> (oid \<times> 'a) list \<Rightarrow> (oid \<times> 'a) list" where
  "updateById i d [] = []"
| "updateById i d ((k, v) # rest) =
     (if k = i then (k, d) # rest else (k, v) # updateById i d rest)"

text \<open>\<^verbatim>\<open>doc.save()\<close> of a new document: \<^verbatim>\<open>_id\<close> is unique in a collection.\<close>

definition insertDoc :: "oid \<Rightarrow> 'a \<Rightarrow> (oid \<times> 'a) list \<Rightarrow> error + (oid \<times> 'a) list" where
  "insertDoc i d coll =
     (case map_of coll i of None \<Rightarrow> Inr (coll @ [(i, d)]) | Some _ \<Rightarrow> Inl DuplicateKeyError)"

text \<open>
  A path of type Number (Mongoose's \<^verbatim>\<open>castNumber\<close>): \<^verbatim>\<open>undefined\<close>, \<^verbatim>\<open>null\<close> and the empty
  string give no value; any other string is converted by \<^verbatim>\<open>Number\<close>; \<^verbatim>\<open>NaN\<close> does not cast.
\<close>

fun castNumber :: "env \<Rightarrow> jsval \<Rightarrow> error + number option" where
  "castNumber e Undefined = Inr None"
| "castNumber e Null = Inr None"
| "castNumber e (Num n) = (if n = NaN then Inl CastError else Inr (Some n))"
| "castNumber e (Str v) =
     (if v = [] then Inr None
      else if stringToNumber e v = NaN then Inl CastError
      else Inr (Some (stringToNumber e v)))"

text \<open>
  A Number path that must hold a value: \<^verbatim>\<open>required: true\<close> of the schema, and the
  \<^verbatim>\<open>balance\<close> of an account, to which the handlers assign only behind a guard that makes
  the assigned value truthy.
\<close>

definition requiredNumber :: "env \<Rightarrow> jsval \<Rightarrow> error + number" where
  "requiredNumber e x =
     (case castNumber e x of
        Inl err \<Rightarrow> Inl err
      | Inr None \<Rightarrow> Inl ValidationError
      | Inr (Some n) \<Rightarrow> Inr n)"

text \<open>A path of type Date: an absent value takes the default, if the path has one.\<close>

definition dateField :: "env \<Rightarrow> int option \<Rightarrow> jsval \<Rightarrow> error + int option" where
  "dateField e dflt x = (case x of Undefined \<Rightarrow> Inr dflt | _ \<Rightarrow> castDate e x)"

text \<open>
  \<^verbatim>\<open>new Transaction({...})\<close> followed by the validation that \<^verbatim>\<open>save\<close> runs, by
  \<^verbatim>\<open>transactionSchema\<close>: \<^verbatim>\<open>description\<close> is a required string (the empty string does not
  count), \<^verbatim>\<open>amount\<close> a required number, \<^verbatim>\<open>date\<close> a date that defaults to now, \<^verbatim>\<open>type\<close> is
  one of four values and defaults to \<^verbatim>\<open>expense\<close>, the three references must cast.
\<close>

definition transactionTypes :: "string list" where
  "transactionTypes = [''income'', ''expense'', ''self-transfer'', ''debt'']"

definition newTransaction ::
  "env \<Rightarrow> string option \<Rightarrow> jsval \<Rightarrow> string option \<Rightarrow> jsval \<Rightarrow> string option
     \<Rightarrow> string option \<Rightarrow> string option \<Rightarrow> string option \<Rightarrow> error + transaction" where
  "newTransaction e description amount category date type sourceAccount destinationAccount debtRef =
     (case (description, requiredNumber e amount, dateField e (Some (dateNow e)) date) of
        (Some desc, Inr amt, Inr dt) \<Rightarrow>
          if desc = [] then Inl ValidationError
          else if (case type of None \<Rightarrow> False | Some ty \<Rightarrow> ty \<notin> set transactionTypes)
          then Inl ValidationError
          else
            (case (castRef e sourceAccount, castRef e destinationAccount, castRef e debtRef) of
               (Inr src, Inr dst, Inr dbt) \<Rightarrow>
                 Inr \<lparr> t_description = desc, t_amount = amt, t_category = category,
                       t_date = dt,
                       t_type = (case type of None \<Rightarrow> ''expense'' | Some ty \<Rightarrow> ty),
                       t_sourceAccount = src, t_destinationAccount = dst, t_debt = dbt \<rparr>
             | _ \<Rightarrow> Inl ValidationError)
      | _ \<Rightarrow> Inl ValidationError)"

text \<open>\<^verbatim>\<open>account.balance = v; account.save()\<close> inside the current unit of work.\<close>

definition saveBalance ::
  "env \<Rightarrow> oid \<Rightarrow> bankAccount \<Rightarrow> jsval \<Rightarrow> store \<Rightarrow> error + bankAccount \<times> store" where
  "saveBalance e i acc v s =
     (case requiredNumber e v of
        Inl err \<Rightarrow> Inl err
      | Inr b \<Rightarrow>
          Inr (acc\<lparr>balance := b\<rparr>,
               s\<lparr>bankAccounts := updateById i (acc\<lparr>balance := b\<rparr>) (bankAccounts s)\<rparr>))"

section \<open>The handlers of routes.js\<close>

datatype body =
    ErrorBody string
  | TransactionBody string transaction
  | BankAccountBody string "oid \<times> bankAccount"
  | DebtBody string "oid \<times> debt"
  | BankAccountDoc "oid \<times> bankAccount"
  | DebtDoc "oid \<times> debt"
  | BankAccountList "(oid \<times> bankAccount) list"
  | DebtList "(oid \<times> debt) list"

datatype response = Response (status: nat) (body: body)

text \<open>
  A handler that opens a session runs its \<^verbatim>\<open>try\<close> block as a unit of work on the store:
  every write of the block is made on the session's view, which later reads of the same
  block see. \<^verbatim>\<open>commitTransaction\<close> makes the view the store; a \<^verbatim>\<open>throw\<close> reaches the
  \<^verbatim>\<open>catch\<close>, whose \<^verbatim>\<open>abortTransaction\<close> discards the view. The unit is a function to
  \<open>error + (result \<times> store)\<close>, and \<open>inSession\<close> is the \<^verbatim>\<open>try\<close>/\<^verbatim>\<open>catch\<close> around it.
\<close>

definition inSession ::
  "nat \<Rightarrow> string \<Rightarrow> (error + transaction \<times> store) \<Rightarrow> store \<Rightarrow> response \<times> store" where
  "inSession code msg r s =
     (case r of
        Inl err \<Rightarrow> (Response 500 (ErrorBody ''Internal Server Error''), s)
      | Inr (t, s') \<Rightarrow> (Response code (TransactionBody msg t), s'))"

subsection \<open>POST /transactions/expense\<close>

definition expense_unit ::
  "env \<Rightarrow> string option \<Rightarrow> jsval \<Rightarrow> string option \<Rightarrow> jsval \<Rightarrow> string option
     \<Rightarrow> store \<Rightarrow> error + transaction \<times> store" where
  "expense_unit e description amount category date sourceAccount s =
     (if \<not> truthy_str description \<or> \<not> truthy amount \<or> \<not> truthy_str sourceAccount
      then Inl (Error ''Description, amount, and sourceAccount are required fields.'')
      else
        case newTransaction e description amount category date (Some ''expense'')
               sourceAccount None None of
          Inl err \<Rightarrow> Inl err
        | Inr newExpense \<Rightarrow>
            let s1 = s\<lparr>transactions := transactions s @ [newExpense]\<rparr> in
            (case findById e (bankAccounts s1) sourceAccount of
               Inl err \<Rightarrow> Inl err
             | Inr None \<Rightarrow> Inl (Error ''Source account not found.'')
             | Inr (Some (i, sourceAccountObject)) \<Rightarrow>
                 (case saveBalance e i sourceAccountObject
                         (js_sub e (balance sourceAccountObject) amount) s1 of
                    Inl err \<Rightarrow> Inl err
                  | Inr (_, s2) \<Rightarrow> Inr (newExpense, s2))))"

definition post_expense ::
  "env \<Rightarrow> string option \<Rightarrow> jsval \<Rightarrow> string option \<Rightarrow> jsval \<Rightarrow> string option
     \<Rightarrow> store \<Rightarrow> response \<times> store" where
  "post_expense e description amount category date sourceAccount s =
     inSession 200 ''Expense added successfully''
       (expense_unit e description amount category date sourceAccount s) s"

subsection \<open>POST /transactions/income\<close>

definition income_unit ::
  "env \<Rightarrow> string option \<Rightarrow> jsval \<Rightarrow> string option \<Rightarrow> jsval \<Rightarrow> string option
     \<Rightarrow> store \<Rightarrow> error + transaction \<times> store" where
  "income_unit e description amount category date destinationAccount s =
     (if \<not> truthy_str description \<or> \<not> truthy amount \<or> \<not> truthy_str destinationAccount
      then Inl (Error ''Description, amount, and destinationAccount are required fields.'')
      else
        case newTransaction e description amount category date (Some ''income'')
               None destinationAccount None of
          Inl err \<Rightarrow> Inl err
        | Inr newIncome \<Rightarrow>
            let s1 = s\<lparr>transactions := transactions s @ [newIncome]\<rparr> in
            (case findById e (bankAccounts s1) destinationAccount of
               Inl err \<Rightarrow> Inl err
             | Inr None \<Rightarrow> Inl (Error ''Destination account not found.'')
             | Inr (Some (i, destinationAccountObject)) \<Rightarrow>
                 (case saveBalance e i destinationAccountObject
                         (js_add e (balance destinationAccountObject) amount) s1 of
                    Inl err \<Rightarrow> Inl err
                  | Inr (_, s2) \<Rightarrow> Inr (newIncome, s2))))"

definition post_income ::
  "env \<Rightarrow> string option \<Rightarrow> jsval \<Rightarrow> string option \<Rightarrow> jsval \<Rightarrow> string option
     \<Rightarrow> store \<Rightarrow> response \<times> store" where
  "post_income e description amount category date destinationAccount s =
     inSession 200 ''Income added successfully''
       (income_unit e description amount category date destinationAccount s) s"

subsection \<open>POST /transactions/self-transfer\<close>

definition selfTransfer_unit ::
  "env \<Rightarrow> jsval \<Rightarrow> string option \<Rightarrow> string option \<Rightarrow> string option
     \<Rightarrow> store \<Rightarrow> error + transaction \<times> store" where
  "selfTransfer_unit e amount sourceAccount destinationAccount description s =
     (if \<not> truthy amount \<or> \<not> truthy_str sourceAccount \<or> \<not> truthy_str destinationAccount
      then Inl (Error ''Amount, sourceAccount, and destinationAccount are required fields.'')
      else
        case newTransaction e description amount None Undefined (Some ''self-transfer'')
               sourceAccount destinationAccount None of
          Inl err \<Rightarrow> Inl err
        | Inr selfTransaction \<Rightarrow>
            let s1 = s\<lparr>transactions := transactions s @ [selfTransaction]\<rparr> in
            (case findById e (bankAccounts s1) sourceAccount of
               Inl err \<Rightarrow> Inl err
             | Inr None \<Rightarrow> Inl (Error ''Source account not found.'')
             | Inr (Some (i, sourceAccountObject)) \<Rightarrow>
                 (case saveBalance e i sourceAccountObject
                         (js_sub e (balance sourceAccountObject) amount) s1 of
                    Inl err \<Rightarrow> Inl err
                  | Inr (_, s2) \<Rightarrow>
                      (case findById e (bankAccounts s2) destinationAccount of
                         Inl err \<Rightarrow> Inl err
                       | Inr None \<Rightarrow> Inl (Error ''Destination account not found.'')
                       | Inr (Some (j, destinationAccountObject)) \<Rightarrow>
                           (case saveBalance e j destinationAccountObject
                                   (js_add e (balance destinationAccountObject) amount) s2 of
                              Inl err \<Rightarrow> Inl err
                            | Inr (_, s3) \<Rightarrow> Inr (selfTransaction, s3))))))"

definition post_selfTransfer ::
  "env \<Rightarrow> jsval \<Rightarrow> string option \<Rightarrow> string option \<Rightarrow> string option
     \<Rightarrow> store \<Rightarrow> response \<times> store" where
  "post_selfTransfer e amount sourceAccount destinationAccount description s =
     inSession 200 ''Self-transfer completed successfully''
       (selfTransfer_unit e amount sourceAccount destinationAccount description s) s"

subsection \<open>GET /bank-accounts and GET /bank-accounts/:accountId\<close>

definition get_bankAccounts :: "store \<Rightarrow> response \<times> store" where
  "get_bankAccounts s = (Response 200 (BankAccountList (bankAccounts s)), s)"

definition get_bankAccount :: "env \<Rightarrow> string \<Rightarrow> store \<Rightarrow> response \<times> store" where
  "get_bankAccount e accountId s =
     (case findById e (bankAccounts s) (Some accountId) of
        Inl err \<Rightarrow> (Response 500 (ErrorBody ''Internal Server Error''), s)
      | Inr None \<Rightarrow> (Response 404 (ErrorBody ''Bank account not found.''), s)
      | Inr (Some bankAccount) \<Rightarrow> (Response 200 (BankAccountDoc bankAccount), s))"

subsection \<open>POST /bank-accounts\<close>

text \<open>\<^verbatim>\<open>BankAccount.findOne({ accountNumber })\<close>: the first account with that number.\<close>

definition findOneByAccountNumber ::
  "(oid \<times> bankAccount) list \<Rightarrow> string option \<Rightarrow> (oid \<times> bankAccount) option" where
  "findOneByAccountNumber coll accountNumber' =
     find (\<lambda>(i, a). Some (accountNumber a) = accountNumber') coll"

text \<open>
  \<^verbatim>\<open>new BankAccount({ accountNumber, balance: 0 })\<close> and the validation of \<^verbatim>\<open>save\<close>:
  \<^verbatim>\<open>accountNumber\<close> is a required string. The handler has looked the number up before it
  saves, so the schema's unique index on \<^verbatim>\<open>accountNumber\<close> has nothing left to reject.
\<close>

definition newBankAccount :: "string option \<Rightarrow> number \<Rightarrow> error + bankAccount" where
  "newBankAccount accountNumber' balance' =
     (case accountNumber' of
        None \<Rightarrow> Inl ValidationError
      | Some n \<Rightarrow>
          if n = [] then Inl ValidationError
          else Inr \<lparr> accountNumber = n, balance = balance' \<rparr>)"

definition post_bankAccount :: "env \<Rightarrow> string option \<Rightarrow> store \<Rightarrow> response \<times> store" where
  "post_bankAccount e accountNumber' s =
     (if \<not> truthy_str accountNumber'
      then (Response 400 (ErrorBody ''Account number is a required field.''), s)
      else
        case findOneByAccountNumber (bankAccounts s) accountNumber' of
          Some existingAccount \<Rightarrow>
            (Response 400
               (ErrorBody ''Account with the same account number already exists.''), s)
        | None \<Rightarrow>
            (case newBankAccount accountNumber' (num 0) of
               Inl err \<Rightarrow> (Response 500 (ErrorBody ''Internal Server Error''), s)
             | Inr newAccount \<Rightarrow>
                 (case insertDoc (newObjectId e) newAccount (bankAccounts s) of
                    Inl err \<Rightarrow> (Response 500 (ErrorBody ''Internal Server Error''), s)
                  | Inr coll \<Rightarrow>
                      (Response 201
                         (BankAccountBody ''Bank account created successfully''
                            (newObjectId e, newAccount)),
                       s\<lparr>bankAccounts := coll\<rparr>))))"

subsection \<open>PATCH /bank-accounts/:accountId/update-balance\<close>

definition patch_updateBalance ::
  "env \<Rightarrow> string \<Rightarrow> jsval \<Rightarrow> store \<Rightarrow> response \<times> store" where
  "patch_updateBalance e accountId newBalance s =
     (if \<not> truthy newBalance \<or> js_isNaN e newBalance
      then (Response 400 (ErrorBody ''New balance must be a valid number.''), s)
      else
        case findById e (bankAccounts s) (Some accountId) of
          Inl err \<Rightarrow> (Response 500 (ErrorBody ''Internal Server Error''), s)
        | Inr None \<Rightarrow> (Response 404 (ErrorBody ''Bank account not found.''), s)
        | Inr (Some (i, bankAccount)) \<Rightarrow>
            (case saveBalance e i bankAccount newBalance s of
               Inl err \<Rightarrow> (Response 500 (ErrorBody ''Internal Server Error''), s)
             | Inr (bankAccount', s') \<Rightarrow>
                 (Response 200
                    (BankAccountBody ''Bank account balance updated successfully''
                       (i, bankAccount')),
                  s')))"

subsection \<open>POST /debts\<close>

text \<open>The body of the request, as the handler destructures it.\<close>

record recurrence =
  frequency :: "string option"
  interval :: jsval
  nextDueDate :: jsval

record debtBody =
  b_description :: "string option"
  b_totalAmount :: jsval
  b_settledAmount :: jsval
  b_pendingAmount :: jsval
  b_status :: "string option"
  b_type :: "string option"
  b_debtor :: "string option"
  b_debtorAccount :: "string option"
  b_creditorAccount :: "string option"
  b_creditor :: "string option"
  b_isRecurring :: "bool option"
  b_recurrence :: "recurrence option"

definition debtStatuses :: "string list" where
  "debtStatuses = [''pending'', ''settled'']"

definition debtTypes :: "string list" where
  "debtTypes = [''negative'', ''positive'']"

definition frequencies :: "string list" where
  "frequencies = [''daily'', ''weekly'', ''monthly'', ''yearly'']"

text \<open>An enum path: an absent value passes, a present one must be listed.\<close>

definition enumOk :: "string list \<Rightarrow> string option \<Rightarrow> bool" where
  "enumOk values x = (case x of None \<Rightarrow> True | Some v \<Rightarrow> v \<in> set values)"

text \<open>
  \<^verbatim>\<open>new Debt({...})\<close> and the validation of \<^verbatim>\<open>save\<close>, by \<^verbatim>\<open>debtSchema\<close>: \<^verbatim>\<open>description\<close> is
  a required string; \<^verbatim>\<open>totalAmount\<close>, \<^verbatim>\<open>settledAmount\<close> and \<^verbatim>\<open>pendingAmount\<close> are required
  numbers; \<^verbatim>\<open>status\<close>, \<^verbatim>\<open>type\<close> and \<^verbatim>\<open>recurrence.frequency\<close> are enums; the two account
  references, \<^verbatim>\<open>recurrence.interval\<close> and \<^verbatim>\<open>recurrence.nextDueDate\<close> must cast; the other
  paths take their defaults (\<^verbatim>\<open>date\<close> is never passed, so it is always now).
\<close>

definition intervalField :: "env \<Rightarrow> recurrence option \<Rightarrow> error + number option" where
  "intervalField e r =
     (case r of
        None \<Rightarrow> Inr (Some (num 1))
      | Some r' \<Rightarrow>
          (case interval r' of Undefined \<Rightarrow> Inr (Some (num 1)) | v \<Rightarrow> castNumber e v))"

definition nextDueDateField :: "env \<Rightarrow> recurrence option \<Rightarrow> error + int option" where
  "nextDueDateField e r =
     (case r of None \<Rightarrow> Inr None | Some r' \<Rightarrow> dateField e None (nextDueDate r'))"

definition newDebt :: "env \<Rightarrow> debtBody \<Rightarrow> error + debt" where
  "newDebt e b =
     (case (b_description b, requiredNumber e (b_totalAmount b),
            requiredNumber e (b_settledAmount b), requiredNumber e (b_pendingAmount b)) of
        (Some desc, Inr totalAmount, Inr settledAmount, Inr pendingAmount) \<Rightarrow>
          if desc = [] then Inl ValidationError
          else if \<not> enumOk debtStatuses (b_status b) \<or> \<not> enumOk debtTypes (b_type b)
                  \<or> \<not> enumOk frequencies
                        (case b_recurrence b of None \<Rightarrow> None | Some r \<Rightarrow> frequency r)
          then Inl ValidationError
          else
            (case (castRef e (b_debtorAccount b), castRef e (b_creditorAccount b),
                   intervalField e (b_recurrence b), nextDueDateField e (b_recurrence b)) of
               (Inr debtorAcc, Inr creditorAcc, Inr intv, Inr due) \<Rightarrow>
                 Inr \<lparr> d_description = desc, d_totalAmount = totalAmount,
                       d_settledAmount = settledAmount, d_pendingAmount = pendingAmount,
                       d_status = (case b_status b of None \<Rightarrow> ''pending'' | Some st \<Rightarrow> st),
                       d_type = (case b_type b of None \<Rightarrow> ''positive'' | Some ty \<Rightarrow> ty),
                       d_date = dateNow e,
                       d_debtor = b_debtor b,
                       d_debtorAccount = debtorAcc,
                       d_creditorAccount = creditorAcc,
                       d_creditor = b_creditor b,
                       d_isRecurring = (case b_isRecurring b of None \<Rightarrow> False | Some r \<Rightarrow> r),
                       d_frequency =
                         (case b_recurrence b of None \<Rightarrow> None | Some r \<Rightarrow> frequency r),
                       d_interval = intv,
                       d_nextDueDate = due \<rparr>
             | _ \<Rightarrow> Inl ValidationError)
      | _ \<Rightarrow> Inl ValidationError)"

definition post_debt :: "env \<Rightarrow> debtBody \<Rightarrow> store \<Rightarrow> response \<times> store" where
  "post_debt e b s =
     (if \<not> truthy_str (b_description b) \<or> \<not> truthy (b_totalAmount b)
         \<or> \<not> truthy_str (b_status b) \<or> \<not> truthy_str (b_type b)
         \<or> \<not> (truthy_str (b_debtor b) \<or> truthy_str (b_debtorAccount b))
         \<or> \<not> (truthy_str (b_creditor b) \<or> truthy_str (b_creditorAccount b))
      then (Response 400 (ErrorBody ''Required fields are missing.''), s)
      else
        case newDebt e b of
          Inl err \<Rightarrow> (Response 500 (ErrorBody ''Internal Server Error''), s)
        | Inr newDebt' \<Rightarrow>
            (case insertDoc (newObjectId e) newDebt' (debts s) of
               Inl err \<Rightarrow> (Response 500 (ErrorBody ''Internal Server Error''), s)
             | Inr coll \<Rightarrow>
                 (Response 201 (DebtBody ''Debt created successfully'' (newObjectId e, newDebt')),
                  s\<lparr>debts := coll\<rparr>)))"

subsection \<open>GET /debts and GET /debts/:debtId\<close>

definition get_debts :: "store \<Rightarrow> response \<times> store" where
  "get_debts s = (Response 200 (DebtList (debts s)), s)"

definition get_debt :: "env \<Rightarrow> string \<Rightarrow> store \<Rightarrow> response \<times> store" where
  "get_debt e debtId s =
     (case findById e (debts s) (Some debtId) of
        Inl err \<Rightarrow> (Response 500 (ErrorBody ''Internal Server Error''), s)
      | Inr None \<Rightarrow> (Response 404 (ErrorBody ''Debt not found.''), s)
      | Inr (Some debt) \<Rightarrow> (Response 200 (DebtDoc debt), s))"

subsection \<open>PATCH /debts/:debtId/update-status\<close>

text \<open>\<^verbatim>\<open>["pending", "settled"].includes(x)\<close> on a request value.\<close>

definition js_includes :: "string list \<Rightarrow> string option \<Rightarrow> bool" where
  "js_includes values x = (case x of None \<Rightarrow> False | Some v \<Rightarrow> v \<in> set values)"

text \<open>
  \<^verbatim>\<open>debt.status = newStatus; debt.save()\<close>: the enum of the path is checked again by
  \<^verbatim>\<open>save\<close>. The handler assigns only behind its guard, so the value is present.
\<close>

definition saveStatus ::
  "oid \<Rightarrow> debt \<Rightarrow> string option \<Rightarrow> store \<Rightarrow> error + debt \<times> store" where
  "saveStatus i d newStatus s =
     (case newStatus of
        None \<Rightarrow> Inl ValidationError
      | Some st \<Rightarrow>
          if st \<notin> set debtStatuses then Inl ValidationError
          else Inr (d\<lparr>d_status := st\<rparr>,
                    s\<lparr>debts := updateById i (d\<lparr>d_status := st\<rparr>) (debts s)\<rparr>))"

definition patch_updateStatus ::
  "env \<Rightarrow> string \<Rightarrow> string option \<Rightarrow> store \<Rightarrow> response \<times> store" where
  "patch_updateStatus e debtId newStatus s =
     (if \<not> truthy_str newStatus \<or> \<not> js_includes [''pending'', ''settled''] newStatus
      then (Response 400 (ErrorBody ''Invalid status provided.''), s)
      else
        case findById e (debts s) (Some debtId) of
          Inl err \<Rightarrow> (Response 500 (ErrorBody ''Internal Server Error''), s)
        | Inr None \<Rightarrow> (Response 404 (ErrorBody ''Debt not found.''), s)
        | Inr (Some (i, debt)) \<Rightarrow>
            (case saveStatus i debt newStatus s of
               Inl err \<Rightarrow> (Response 500 (ErrorBody ''Internal Server Error''), s)
             | Inr (debt', s') \<Rightarrow>
                 (Response 200 (DebtBody ''Debt status updated successfully'' (i, debt')), s')))"

subsection \<open>POST /debts/:debtId/transactions\<close>

text \<open>
  \<^verbatim>\<open>debt.totalAmount += amount; debt.pendingAmount += amount; debt.save()\<close> inside the
  current unit of work.
\<close>

definition saveDebtAmounts ::
  "env \<Rightarrow> oid \<Rightarrow> debt \<Rightarrow> jsval \<Rightarrow> jsval \<Rightarrow> store \<Rightarrow> error + store" where
  "saveDebtAmounts e i d totalAmount pendingAmount s =
     (case (requiredNumber e totalAmount, requiredNumber e pendingAmount) of
        (Inr t, Inr p) \<Rightarrow>
          Inr (s\<lparr>debts := updateById i (d\<lparr>d_totalAmount := t, d_pendingAmount := p\<rparr>) (debts s)\<rparr>)
      | _ \<Rightarrow> Inl CastError)"

definition debtTransaction_unit ::
  "env \<Rightarrow> string \<Rightarrow> string option \<Rightarrow> jsval \<Rightarrow> string option \<Rightarrow> jsval
     \<Rightarrow> string option \<Rightarrow> string option \<Rightarrow> store \<Rightarrow> error + transaction \<times> store" where
  "debtTransaction_unit e debtId description amount category date type sourceAccount s =
     (if \<not> truthy_str description \<or> \<not> truthy amount \<or> \<not> truthy_str type
         \<or> \<not> truthy_str sourceAccount
      then Inl (Error ''Required fields are missing.'')
      else
        case findById e (debts s) (Some debtId) of
          Inl err \<Rightarrow> Inl err
        | Inr None \<Rightarrow> Inl (Error ''Debt not found.'')
        | Inr (Some (di, debt)) \<Rightarrow>
            let isPositiveDebt = (d_type debt = ''positive'') in
            (case newTransaction e description amount category date type
                    sourceAccount None (Some debtId) of
               Inl err \<Rightarrow> Inl err
             | Inr newDebtTransaction \<Rightarrow>
                 let s1 = s\<lparr>transactions := transactions s @ [newDebtTransaction]\<rparr>;
                     accountToUpdate = (if isPositiveDebt then d_debtor debt else d_creditor debt)
                 in
                 (case findById e (bankAccounts s1) accountToUpdate of
                    Inl err \<Rightarrow> Inl err
                  | Inr None \<Rightarrow> Inl (Error ''Account not found.'')
                  | Inr (Some (ai, account)) \<Rightarrow>
                      (case saveBalance e ai account
                              (js_add e (balance account)
                                 (if isPositiveDebt then amount else js_neg e amount)) s1 of
                         Inl err \<Rightarrow> Inl err
                       | Inr (_, s2) \<Rightarrow>
                           (case saveDebtAmounts e di debt
                                   (js_add e (d_totalAmount debt) amount)
                                   (js_add e (d_pendingAmount debt) amount) s2 of
                              Inl err \<Rightarrow> Inl err
                            | Inr s3 \<Rightarrow> Inr (newDebtTransaction, s3))))))"

definition post_debtTransaction ::
  "env \<Rightarrow> string \<Rightarrow> string option \<Rightarrow> jsval \<Rightarrow> string option \<Rightarrow> jsval
     \<Rightarrow> string option \<Rightarrow> string option \<Rightarrow> store \<Rightarrow> response \<times> store" where
  "post_debtTransaction e debtId description amount category date type sourceAccount s =
     inSession 201 ''Debt transaction created successfully''
       (debtTransaction_unit e debtId description amount category date type sourceAccount s) s"

subsection \<open>The router\<close>

datatype request =
    PostExpense "string option" jsval "string option" jsval "string option"
  | PostIncome "string option" jsval "string option" jsval "string option"
  | PostSelfTransfer jsval "string option" "string option" "string option"
  | GetBankAccounts
  | GetBankAccount string
  | PostBankAccount "string option"
  | PatchUpdateBalance string jsval
  | PostDebt debtBody
  | GetDebts
  | GetDebt string
  | PatchUpdateStatus string "string option"
  | PostDebtTransaction string "string option" jsval "string option" jsval
      "string option" "string option"

fun handle :: "env \<Rightarrow> request \<Rightarrow> store \<Rightarrow> response \<times> store" where
  "handle e (PostExpense description amount category date sourceAccount) s =
     post_expense e description amount category date sourceAccount s"
| "handle e (PostIncome description amount category date destinationAccount) s =
     post_income e description amount category date destinationAccount s"
| "handle e (PostSelfTransfer amount sourceAccount destinationAccount description) s =
     post_selfTransfer e amount sourceAccount destinationAccount description s"
| "handle e GetBankAccounts s = get_bankAccounts s"
| "handle e (GetBankAccount accountId) s = get_bankAccount e accountId s"
| "handle e (PostBankAccount accountNumber') s = post_bankAccount e accountNumber' s"
| "handle e (PatchUpdateBalance accountId newBalance) s =
     patch_updateBalance e accountId newBalance s"
| "handle e (PostDebt b) s = post_debt e b s"
| "handle e GetDebts s = get_debts s"
| "handle e (GetDebt debtId) s = get_debt e debtId s"
| "handle e (PatchUpdateStatus debtId newStatus) s = patch_updateStatus e debtId newStatus s"
| "handle e (PostDebtTransaction debtId description amount category date type sourceAccount) s =
     post_debtTransaction e debtId description amount category date type sourceAccount s"

section \<open>Vocabulary of the properties\<close>

text \<open>A reference names an existing account when \<^verbatim>\<open>findById\<close> returns a document for it.\<close>

definition accountExists :: "env \<Rightarrow> store \<Rightarrow> string option \<Rightarrow> bool" where
  "accountExists e s ref = (case findById e (bankAccounts s) ref of Inr (Some _) \<Rightarrow> True | _ \<Rightarrow> False)"

text \<open>The stored balance of the account with a given \<^verbatim>\<open>_id\<close>, and the stored debt.\<close>

definition balanceOf :: "store \<Rightarrow> oid \<Rightarrow> number option" where
  "balanceOf s i = map_option balance (map_of (bankAccounts s) i)"

definition debtOf :: "store \<Rightarrow> oid \<Rightarrow> debt option" where
  "debtOf s i = map_of (debts s) i"

definition statusOf :: "store \<Rightarrow> oid \<Rightarrow> string option" where
  "statusOf s i = map_option d_status (map_of (debts s) i)"

definition isUpdateStatus :: "request \<Rightarrow> bool" where
  "isUpdateStatus r = (case r of PatchUpdateStatus _ _ \<Rightarrow> True | _ \<Rightarrow> False)"

text \<open>The \<^verbatim>\<open>amount\<close> field of a request, for the four requests that have one.\<close>

fun amountOf :: "request \<Rightarrow> jsval" where
  "amountOf (PostExpense description amount category date sourceAccount) = amount"
| "amountOf (PostIncome description amount category date destinationAccount) = amount"
| "amountOf (PostSelfTransfer amount sourceAccount destinationAccount description) = amount"
| "amountOf (PostDebtTransaction debtId description amount category date type sourceAccount)
     = amount"
| "amountOf r = Undefined"

text \<open>
  A small world for the concrete instances below. The strings \<^verbatim>\<open>a1\<close>, \<^verbatim>\<open>a2\<close>, \<^verbatim>\<open>a3\<close> and
  \<^verbatim>\<open>d1\<close>, \<^verbatim>\<open>d2\<close> cast to ObjectIds, nothing else does; accounts 1 and 2 and debts 11 and 12
  are stored, account 3 is not. The conversions between strings and numbers are tables
  that agree with JavaScript on the strings and numbers the instances meet
  (\<^verbatim>\<open>Number("5030")\<close> is 5030, \<^verbatim>\<open>String(100)\<close> is \<^verbatim>\<open>"100"\<close>); no instance passes a date.
\<close>

definition exampleEnv :: env where
  "exampleEnv =
     \<lparr> castObjectId =
         (\<lambda>v. if v = ''a1'' then Some 1 else if v = ''a2'' then Some 2
               else if v = ''a3'' then Some 3 else if v = ''d1'' then Some 11
               else if v = ''d2'' then Some 12 else None),
       castDate = (\<lambda>v. case v of Null \<Rightarrow> Inr None | _ \<Rightarrow> Inl CastError),
       stringToNumber =
         (\<lambda>v. if v = ''0'' then num 0 else if v = ''20'' then num 20
               else if v = ''30'' then num 30 else if v = ''5030'' then num 5030
               else if v = ''10020'' then num 10020 else if v = ''10030'' then num 10030
               else NaN),
       numberToString =
         (\<lambda>n. if n = num 100 then ''100'' else if n = num 50 then ''50'' else ''0''),
       dateNow = 1000, newObjectId = 20 \<rparr>"

definition exampleDebt :: "string \<Rightarrow> debt" where
  "exampleDebt ty =
     \<lparr> d_description = ''loan'', d_totalAmount = num 50, d_settledAmount = num 0,
       d_pendingAmount = num 50, d_status = ''pending'', d_type = ty, d_date = 900,
       d_debtor = Some ''a1'', d_debtorAccount = None, d_creditorAccount = None,
       d_creditor = Some ''a2'', d_isRecurring = False, d_frequency = None,
       d_interval = Some (num 1), d_nextDueDate = None \<rparr>"

definition exampleStore :: store where
  "exampleStore =
     \<lparr> transactions = [],
       bankAccounts = [(1, \<lparr> accountNumber = ''A001'', balance = num 100 \<rparr>),
                       (2, \<lparr> accountNumber = ''A002'', balance = num 0 \<rparr>)],
       debts = [(11, exampleDebt ''positive''), (12, exampleDebt ''negative'')] \<rparr>"

text \<open>The same world with account 1 at the first integer whose successor is not a double.\<close>

definition edgeStore :: store where
  "edgeStore =
     \<lparr> transactions = [],
       bankAccounts = [(1, \<lparr> accountNumber = ''A001'', balance = num (2 ^ 53) \<rparr>),
                       (2, \<lparr> accountNumber = ''A002'', balance = num 0 \<rparr>)],
       debts = [(11, exampleDebt ''positive''), (12, exampleDebt ''negative'')] \<rparr>"

text \<open>A debt-creation body that passes the handler's guard but has no \<^verbatim>\<open>settledAmount\<close>.\<close>

definition exampleDebtBody :: debtBody where
  "exampleDebtBody =
     \<lparr> b_description = Some ''loan'', b_totalAmount = Num (num 50), b_settledAmount = Undefined,
       b_pendingAmount = Num (num 50), b_status = Some ''pending'', b_type = Some ''positive'',
       b_debtor = Some ''Ann'', b_debtorAccount = None, b_creditorAccount = None,
       b_creditor = Some ''Bob'', b_isRecurring = None, b_recurrence = None \<rparr>"

section \<open>Facts about numbers\<close>

lemma overflow_pos: "0 < overflow"
  by (simp add: overflow_def del: power_numeral)

lemma scale_pos: "0 < scale"
  by (simp add: scale_def del: power_numeral)

lemma div_lo: "0 < u \<Longrightarrow> c div u * u \<le> (c::int)"
  using div_mult_mod_eq [of c u] pos_mod_sign [of u c] by linarith

lemma div_hi: "0 < u \<Longrightarrow> (c::int) < (c div u + 1) * u"
proof -
  assume u: "0 < u"
  have "(c div u + 1) * u = c div u * u + u" by (simp add: algebra_simps)
  with div_mult_mod_eq [of c u] pos_mod_bound [OF u, of c] show ?thesis by linarith
qed

lemma div_less_bound: "0 < u \<Longrightarrow> (c::int) < x * u \<Longrightarrow> c div u < x"
proof -
  assume u: "0 < u" and "c < x * u"
  with div_lo [OF u, of c] have "c div u * u < x * u" by linarith
  with u show ?thesis by simp
qed

lemma div_ge_bound: "0 < u \<Longrightarrow> x * u \<le> (c::int) \<Longrightarrow> x \<le> c div u"
proof -
  assume u: "0 < u" and "x * u \<le> c"
  with div_hi [OF u, of c] have "x * u < (c div u + 1) * u" by linarith
  with u have "x < c div u + 1" by simp
  then show ?thesis by simp
qed

lemma excess_bounds:
  "0 \<le> a \<Longrightarrow> (excess a = 0 \<and> a < 2 ^ 53)
     \<or> (0 < excess a \<and> 2 ^ (52 + excess a) \<le> a \<and> a < 2 ^ (53 + excess a))"
proof (induction a rule: excess.induct)
  case (1 a)
  show ?case
  proof (cases "a < 2 ^ 53")
    case True
    then show ?thesis by (simp add: excess.simps [of a])
  next
    case False
    then have e: "excess a = Suc (excess (a div 2))"
      by (simp add: excess.simps [of a])
    from 1(2) have nn: "0 \<le> a div 2" by simp
    from 1(1) [OF False nn] show ?thesis
    proof
      assume h: "excess (a div 2) = 0 \<and> a div 2 < 2 ^ 53"
      then have "a div 2 < 2 ^ 53" by blast
      then have "a < 2 * 2 ^ 53" by linarith
      with h False e show ?thesis by simp
    next
      assume h: "0 < excess (a div 2) \<and> 2 ^ (52 + excess (a div 2)) \<le> a div 2
        \<and> a div 2 < 2 ^ (53 + excess (a div 2))"
      define k where "k = excess (a div 2)"
      from h have "(2::int) ^ (52 + k) \<le> a div 2" "a div 2 < 2 ^ (53 + k)"
        by (simp_all add: k_def)
      then have "2 * (2::int) ^ (52 + k) \<le> a" "a < 2 * 2 ^ (53 + k)" by linarith+
      moreover have "(2::int) ^ (52 + Suc k) = 2 * 2 ^ (52 + k)"
        "(2::int) ^ (53 + Suc k) = 2 * 2 ^ (53 + k)" by (simp_all add: power_add)
      ultimately have "(2::int) ^ (52 + Suc k) \<le> a" "a < 2 ^ (53 + Suc k)" by linarith+
      with e show ?thesis unfolding k_def by (metis zero_less_Suc)
    qed
  qed
qed

lemma excess_unique:
  assumes "0 < k" "2 ^ (52 + k) \<le> a" "a < 2 ^ (53 + k)"
  shows "excess a = k"
proof -
  have a0: "0 \<le> a" using assms(2) by (meson order_trans zero_le_numeral zero_le_power)
  have big: "(2::int) ^ 53 \<le> a"
  proof -
    have "(2::int) ^ 53 \<le> 2 ^ (52 + k)" using assms(1) by (intro power_increasing) auto
    with assms(2) show ?thesis by linarith
  qed
  from excess_bounds [OF a0] big
  have b: "2 ^ (52 + excess a) \<le> a" "a < 2 ^ (53 + excess a)" by auto
  from b(1) assms(3) have "(2::int) ^ (52 + excess a) < 2 ^ (53 + k)" by linarith
  then have "52 + excess a < 53 + k" by (simp del: power_numeral)
  moreover from assms(2) b(2) have "(2::int) ^ (52 + k) < 2 ^ (53 + excess a)" by linarith
  then have "52 + k < 53 + excess a" by (simp del: power_numeral)
  ultimately show ?thesis by linarith
qed

lemma nearestEven_range:
  "a div 2 ^ k \<le> nearestEven a k \<and> nearestEven a k \<le> a div 2 ^ k + 1"
  by (simp add: nearestEven_def Let_def)

lemma mag_lower: "0 \<le> a \<Longrightarrow> a div 2 ^ excess a * 2 ^ excess a \<le> mag a"
  unfolding mag_def using nearestEven_range [of a "excess a"]
  by (intro mult_right_mono) auto

lemma mag_upper: "0 \<le> a \<Longrightarrow> mag a \<le> (a div 2 ^ excess a + 1) * 2 ^ excess a"
  unfolding mag_def using nearestEven_range [of a "excess a"]
  by (intro mult_right_mono) auto

lemma mag_nonneg: "0 \<le> a \<Longrightarrow> 0 \<le> mag a"
proof -
  assume a: "0 \<le> a"
  then have "0 \<le> a div 2 ^ excess a" by (simp add: pos_imp_zdiv_nonneg_iff)
  then have "0 \<le> a div 2 ^ excess a * 2 ^ excess a" by simp
  with mag_lower [OF a] show ?thesis by linarith
qed

lemma mag_exact: "2 ^ excess a dvd a \<Longrightarrow> mag a = a"
proof -
  assume d: "2 ^ excess a dvd a"
  then have "a mod 2 ^ excess a = 0" by simp
  then have "nearestEven a (excess a) = a div 2 ^ excess a"
    by (simp add: nearestEven_def)
  with d show ?thesis by (simp add: mag_def)
qed

lemma mag_0: "mag 0 = 0"
  by (simp add: mag_def nearestEven_def excess.simps [of 0])

lemma round53_exact:
  assumes "2 ^ excess \<bar>n\<bar> dvd n" and "\<bar>n\<bar> < overflow"
  shows "round53 n = Fin n"
proof -
  from assms(1) have "2 ^ excess \<bar>n\<bar> dvd \<bar>n\<bar>" by simp
  then have "mag \<bar>n\<bar> = \<bar>n\<bar>" by (rule mag_exact)
  with assms(2) show ?thesis by (auto simp: round53_def)
qed

lemma round53_rep:
  assumes "round53 n = Fin n"
  shows "2 ^ excess \<bar>n\<bar> dvd n \<and> \<bar>n\<bar> < overflow"
proof -
  from assms have lt: "mag \<bar>n\<bar> < overflow" and eq: "(if n < 0 then - mag \<bar>n\<bar> else mag \<bar>n\<bar>) = n"
    by (auto simp: round53_def split: if_splits)
  from eq mag_nonneg [of "\<bar>n\<bar>"] have m: "mag \<bar>n\<bar> = \<bar>n\<bar>" by (auto split: if_splits)
  have "2 ^ excess \<bar>n\<bar> dvd mag \<bar>n\<bar>" by (simp add: mag_def)
  with m have "2 ^ excess \<bar>n\<bar> dvd \<bar>n\<bar>" by simp
  with m lt show ?thesis by simp
qed

lemma round53_neg: "round53 (- n) = num_neg (round53 n)"
  using overflow_pos by (cases "n = 0") (auto simp: round53_def mag_0)

lemma round53_not_NaN: "round53 n \<noteq> NaN"
  by (simp add: round53_def)

text \<open>No representable value lies strictly inside a cell of the grid around \<open>c\<close>.\<close>

lemma no_rep_inside:
  assumes c: "0 \<le> c" and b: "2 ^ excess b dvd b"
    and lo: "c div 2 ^ excess c * 2 ^ excess c < b"
    and hi: "b < (c div 2 ^ excess c + 1) * 2 ^ excess c"
  shows False
proof -
  let ?k = "excess c"
  let ?q = "c div 2 ^ ?k"
  from excess_bounds [OF c] consider "?k = 0"
    | "0 < ?k" "2 ^ (52 + ?k) \<le> c" "c < 2 ^ (53 + ?k)" by auto
  then show False
  proof cases
    case 1
    with lo hi show False by simp
  next
    case 2
    have pk: "(0::int) < 2 ^ ?k" by simp
    have e53: "(2::int) ^ (53 + ?k) = 2 ^ 53 * 2 ^ ?k"
      and e52: "(2::int) ^ (52 + ?k) = 2 ^ 52 * 2 ^ ?k"
      by (simp_all only: power_add)
    from 2(3) e53 have "c < 2 ^ 53 * 2 ^ ?k" by simp
    then have q53: "?q < 2 ^ 53" using pk by (intro div_less_bound)
    from 2(2) e52 have "(2::int) ^ 52 * 2 ^ ?k \<le> c" by simp
    then have q52: "2 ^ 52 \<le> ?q" using pk by (intro div_ge_bound)
    have "(?q + 1) * 2 ^ ?k \<le> 2 ^ 53 * 2 ^ ?k"
      using q53 by (intro mult_right_mono) auto
    with hi e53 have bhi: "b < 2 ^ (53 + ?k)" by linarith
    have "(2::int) ^ 52 * 2 ^ ?k \<le> ?q * 2 ^ ?k"
      using q52 by (intro mult_right_mono) auto
    with lo e52 have blo: "2 ^ (52 + ?k) \<le> b" by linarith
    from excess_unique [OF 2(1) blo bhi] b have "2 ^ ?k dvd b" by simp
    then obtain t where t: "b = t * 2 ^ ?k" by (auto simp: dvd_def mult.commute)
    from lo t pk have "?q < t" by simp
    moreover from hi t pk have "t < ?q + 1" by simp
    ultimately show False by linarith
  qed
qed

lemma mag_le:
  assumes "0 \<le> c" "c \<le> b" "2 ^ excess b dvd b"
  shows "mag c \<le> b"
proof (cases "c = b")
  case True
  with assms(3) show ?thesis by (simp add: mag_exact)
next
  case False
  with assms(2) have lt: "c < b" by simp
  let ?u = "(2::int) ^ excess c"
  have "c div ?u * ?u \<le> c" by (intro div_lo) simp
  with lt have lo: "c div ?u * ?u < b" by linarith
  have "(c div ?u + 1) * ?u \<le> b"
  proof (rule ccontr)
    assume "\<not> (c div ?u + 1) * ?u \<le> b"
    then have hi: "b < (c div ?u + 1) * ?u" by simp
    from no_rep_inside [OF assms(1) assms(3) lo hi] show False .
  qed
  with mag_upper [OF assms(1)] show ?thesis by linarith
qed

lemma mag_ge:
  assumes "0 \<le> b" "b \<le> c" "2 ^ excess b dvd b"
  shows "b \<le> mag c"
proof (cases "c = b")
  case True
  with assms(3) show ?thesis by (simp add: mag_exact)
next
  case False
  with assms(2) have lt: "b < c" by simp
  from assms(1,2) have c: "0 \<le> c" by simp
  let ?u = "(2::int) ^ excess c"
  have pu: "0 < ?u" by simp
  have "c < (c div ?u + 1) * ?u" using pu by (rule div_hi)
  with lt have hi: "b < (c div ?u + 1) * ?u" by linarith
  have "b \<le> c div ?u * ?u"
  proof (rule ccontr)
    assume "\<not> b \<le> c div ?u * ?u"
    then have lo: "c div ?u * ?u < b" by simp
    from no_rep_inside [OF c assms(3) lo hi] show False .
  qed
  with mag_lower [OF c] show ?thesis by linarith
qed

text \<open>Rounding never crosses a double: it is monotone against a value that is one.\<close>

lemma round53_le:
  assumes "c \<le> b" and "round53 b = Fin b"
  shows "\<not> num_less (Fin b) (round53 c)"
proof -
  from round53_rep [OF assms(2)] have rep: "2 ^ excess \<bar>b\<bar> dvd \<bar>b\<bar>" and fin: "\<bar>b\<bar> < overflow"
    by simp_all
  show ?thesis
  proof (cases "0 \<le> c")
    case True
    with assms(1) have "\<bar>b\<bar> = b" "\<bar>c\<bar> = c" by simp_all
    with mag_le [OF True assms(1)] rep have "mag \<bar>c\<bar> \<le> b" by simp
    with fin True \<open>\<bar>b\<bar> = b\<close> show ?thesis by (simp add: round53_def)
  next
    case False
    then have c: "c < 0" by simp
    show ?thesis
    proof (cases "0 \<le> b")
      case True
      from mag_nonneg [of "\<bar>c\<bar>"] have "- mag \<bar>c\<bar> \<le> b" using True by simp
      with c show ?thesis by (simp add: round53_def)
    next
      case False
      with assms(1) c have "0 \<le> \<bar>b\<bar>" "\<bar>b\<bar> \<le> \<bar>c\<bar>" by simp_all
      from mag_ge [OF this rep] False have "- mag \<bar>c\<bar> \<le> b" by simp
      with c show ?thesis by (simp add: round53_def)
    qed
  qed
qed

lemma round53_ge:
  assumes "b \<le> c" and "round53 b = Fin b"
  shows "\<not> num_less (round53 c) (Fin b)"
proof -
  have "round53 (- b) = Fin (- b)" using assms(2) by (simp add: round53_neg)
  with round53_le [of "- c" "- b"] assms(1)
  have "\<not> num_less (Fin (- b)) (num_neg (round53 c))" by (simp add: round53_neg)
  then show ?thesis by (cases "round53 c") auto
qed

text \<open>Integers up to \<open>2\<^sup>5\<^sup>3\<close> in magnitude are doubles, and arithmetic on them is exact.\<close>

lemma num_exact:
  assumes "\<bar>z\<bar> \<le> 2 ^ 53"
  shows "num z = Fin (z * scale)"
  unfolding num_def
proof (rule round53_exact)
  let ?a = "\<bar>z * scale\<bar>"
  have a: "?a = \<bar>z\<bar> * 2 ^ 1074" by (simp add: abs_mult scale_def del: power_numeral)
  have le: "?a \<le> 2 ^ 1127"
  proof -
    have "\<bar>z\<bar> * 2 ^ 1074 \<le> 2 ^ 53 * (2::int) ^ 1074"
      using assms by (intro mult_right_mono) auto
    also have "\<dots> = 2 ^ 1127" by (simp del: power_numeral flip: power_add)
    finally show ?thesis using a by simp
  qed
  then show "?a < overflow"
    unfolding overflow_def by (rule le_less_trans) (simp del: power_numeral)
  show "2 ^ excess ?a dvd z * scale"
  proof -
    from excess_bounds [of ?a] consider "excess ?a = 0"
      | "0 < excess ?a" "2 ^ (52 + excess ?a) \<le> ?a" by auto
    then show ?thesis
    proof cases
      case 1
      then show ?thesis by simp
    next
      case 2
      with le have "(2::int) ^ (52 + excess ?a) \<le> 2 ^ 1127" by linarith
      then have k: "excess ?a \<le> 1075" by (simp del: power_numeral)
      show ?thesis
      proof (cases "excess ?a \<le> 1074")
        case True
        then have "(2::int) ^ excess ?a dvd 2 ^ 1074" by (rule le_imp_power_dvd)
        then show ?thesis unfolding scale_def by (rule dvd_mult)
      next
        case False
        with k have e: "excess ?a = 1075" by simp
        with 2(2) le have "?a = 2 ^ 1127" by (simp del: power_numeral)
        then have "(2::int) ^ 1075 dvd ?a" by (simp add: le_imp_power_dvd del: power_numeral)
        with e show ?thesis by (simp del: power_numeral)
      qed
    qed
  qed
qed

lemma num_0: "num 0 = Fin 0"
  using num_exact [of 0] by simp

lemma num_not_NaN: "num z \<noteq> NaN"
  by (simp add: num_def round53_not_NaN)

lemma num_inject:
  "\<bar>x\<bar> \<le> 2 ^ 53 \<Longrightarrow> \<bar>y\<bar> \<le> 2 ^ 53 \<Longrightarrow> (num x = num y) = (x = y)"
  using scale_pos by (simp add: num_exact)

lemma represents_num: "\<bar>z\<bar> \<le> 2 ^ 53 \<Longrightarrow> represents (num z) z"
  by (simp add: represents_def num_exact)

lemma num_add_exact:
  "represents x m \<Longrightarrow> represents y n \<Longrightarrow> \<bar>m + n\<bar> \<le> 2 ^ 53 \<Longrightarrow>
     represents (num_add x y) (m + n)"
  using num_exact [of "m + n"] by (simp add: represents_def num_def algebra_simps)

lemma num_sub_exact:
  "represents x m \<Longrightarrow> represents y n \<Longrightarrow> \<bar>m - n\<bar> \<le> 2 ^ 53 \<Longrightarrow>
     represents (num_sub x y) (m - n)"
  using num_exact [of "m - n"] by (simp add: represents_def num_def num_sub_def algebra_simps)

lemma num_add_num:
  "\<bar>x\<bar> \<le> 2 ^ 53 \<Longrightarrow> \<bar>y\<bar> \<le> 2 ^ 53 \<Longrightarrow> num_add (num x) (num y) = num (x + y)"
  by (simp add: num_exact) (simp add: num_def algebra_simps)

lemma num_sub_num:
  "\<bar>x\<bar> \<le> 2 ^ 53 \<Longrightarrow> \<bar>y\<bar> \<le> 2 ^ 53 \<Longrightarrow> num_sub (num x) (num y) = num (x - y)"
  by (simp add: num_exact num_sub_def) (simp add: num_def algebra_simps)

lemma num_neg_num: "num_neg (num x) = num (- x)"
  by (simp add: num_def round53_neg [symmetric])

lemma isDouble_num: "\<bar>z\<bar> \<le> 2 ^ 53 \<Longrightarrow> isDouble (num z)"
proof -
  assume z: "\<bar>z\<bar> \<le> 2 ^ 53"
  then have "num z = Fin (z * scale)" by (rule num_exact)
  moreover from this have "round53 (z * scale) = Fin (z * scale)" by (simp add: num_def)
  ultimately show ?thesis by simp
qed

text \<open>The successor of \<open>2\<^sup>5\<^sup>3\<close> is not a double: it rounds back to \<open>2\<^sup>5\<^sup>3\<close>.\<close>

lemma nearestEven_tie:
  "nearestEven ((2 * q + 1) * 2 ^ j) (Suc j) = (if even q then q else q + 1)"
proof -
  have split: "(2 * q + 1) * 2 ^ j = q * 2 ^ Suc j + (2::int) ^ j"
    by (simp add: algebra_simps)
  have lt: "(2::int) ^ j < 2 ^ Suc j" by simp
  have d: "((2 * q + 1) * 2 ^ j) div 2 ^ Suc j = q"
    unfolding split using lt by (simp del: power_Suc)
  have m: "((2 * q + 1) * 2 ^ j) mod 2 ^ Suc j = 2 ^ j"
    unfolding split using lt by (simp del: power_Suc)
  show ?thesis
    unfolding nearestEven_def d m by (simp add: Let_def)
qed

lemma num_2_53_plus_1: "num (2 ^ 53 + 1) = num (2 ^ 53)"
proof -
  have p: "(2::int) ^ 53 = 2 * 2 ^ 52" by simp
  have nn: "(0::int) \<le> (2 ^ 53 + 1) * scale" by (simp add: scale_def del: power_numeral)
  then have a: "\<bar>(2 ^ 53 + 1) * scale\<bar> = (2 * 2 ^ 52 + 1) * (2::int) ^ 1074"
    unfolding p by (simp add: scale_def del: power_numeral)
  have "(2::int) ^ 1127 \<le> (2 * 2 ^ 52 + 1) * (2::int) ^ 1074"
  proof -
    have "(2::int) ^ 1127 = 2 ^ 53 * 2 ^ 1074" by (simp del: power_numeral flip: power_add)
    also have "\<dots> \<le> (2 * 2 ^ 52 + 1) * (2::int) ^ 1074"
      by (intro mult_right_mono) auto
    finally show ?thesis .
  qed
  moreover have "(2 * 2 ^ 52 + 1) * (2::int) ^ 1074 < 2 ^ 1128"
  proof -
    have "(2 * 2 ^ 52 + 1) * (2::int) ^ 1074 < 2 ^ 54 * 2 ^ 1074"
      by (intro mult_strict_right_mono) auto
    also have "\<dots> = 2 ^ 1128" by (simp del: power_numeral flip: power_add)
    finally show ?thesis .
  qed
  ultimately have e: "excess ((2 * 2 ^ 52 + 1) * (2::int) ^ 1074) = 1075"
    by (intro excess_unique) (simp_all del: power_numeral)
  have n: "nearestEven ((2 * 2 ^ 52 + 1) * (2::int) ^ 1074) 1075 = 2 ^ 52"
    using nearestEven_tie [of "2 ^ 52" 1074] by (simp del: power_numeral)
  have v: "(2::int) ^ 52 * 2 ^ 1075 = 2 ^ 53 * scale"
    by (simp add: scale_def del: power_numeral flip: power_add)
  have "(2::int) ^ 53 * scale < overflow"
  proof -
    have "(2::int) ^ 53 * scale = 2 ^ 1127"
      by (simp add: scale_def del: power_numeral flip: power_add)
    then show ?thesis by (simp add: overflow_def del: power_numeral)
  qed
  with nn have "round53 ((2 ^ 53 + 1) * scale) = Fin (2 ^ 53 * scale)"
    unfolding round53_def mag_def a e n v
    by (simp del: power_numeral)
  moreover have "num (2 ^ 53) = Fin (2 ^ 53 * scale)"
    by (rule num_exact) simp
  ultimately show ?thesis by (simp add: num_def)
qed

text \<open>The direction of a sum and of a difference, for a stored value that is a double.\<close>

lemma num_less_irrefl: "\<not> num_less x x"
  by (cases x) auto

lemma num_add_not_less:
  assumes "isDouble b" and "num_less (num 0) a"
  shows "\<not> num_less (num_add b a) b"
proof (cases b)
  case (Fin nb)
  with assms(1) have rep: "round53 nb = Fin nb" by simp
  show ?thesis
  proof (cases a)
    case (Fin na)
    with assms(2) have "0 < na" by (simp add: num_0)
    then have "nb \<le> nb + na" by simp
    from round53_ge [OF this rep] show ?thesis using \<open>b = Fin nb\<close> \<open>a = Fin na\<close> by simp
  qed (use \<open>b = Fin nb\<close> assms(2) in \<open>auto simp: num_0\<close>)
qed (cases a; use assms(2) in \<open>auto simp: num_0\<close>)+

lemma num_sub_not_less:
  assumes "isDouble b" and "num_less (num 0) a"
  shows "\<not> num_less b (num_sub b a)"
proof (cases b)
  case (Fin nb)
  with assms(1) have rep: "round53 nb = Fin nb" by simp
  show ?thesis
  proof (cases a)
    case (Fin na)
    with assms(2) have "0 < na" by (simp add: num_0)
    then have "nb + - na \<le> nb" by simp
    from round53_le [OF this rep] show ?thesis
      using \<open>b = Fin nb\<close> \<open>a = Fin na\<close> by (simp add: num_sub_def)
  qed (use \<open>b = Fin nb\<close> assms(2) in \<open>auto simp: num_0 num_sub_def\<close>)
qed (cases a; use assms(2) in \<open>auto simp: num_0 num_sub_def\<close>)+

section \<open>Facts about the handlers\<close>

lemma map_of_updateById:
  "map_of (updateById i d c) k =
     (if k = i then (case map_of c i of None \<Rightarrow> None | Some _ \<Rightarrow> Some d) else map_of c k)"
  by (induction c) (auto split: option.splits)

lemma findById_Some:
  "findById e c x = Inr (Some (i, d)) \<longleftrightarrow>
     (\<exists>v. x = Some v \<and> castObjectId e v = Some i \<and> map_of c i = Some d)"
  by (auto simp: findById_def castRef_def split: option.splits sum.splits)

lemma truthy_str_iff: "truthy_str x \<longleftrightarrow> (\<exists>v. x = Some v \<and> v \<noteq> [])"
  by (cases x) (auto simp: truthy_str_def)

lemma requiredNumber_Num: "requiredNumber e (Num n) = (if n = NaN then Inl CastError else Inr n)"
  by (simp add: requiredNumber_def)

lemma requiredNumber_Str:
  "requiredNumber e (Str v) =
     (if v = [] then Inl ValidationError
      else if stringToNumber e v = NaN then Inl CastError else Inr (stringToNumber e v))"
  by (simp add: requiredNumber_def)

lemma requiredNumber_Inr:
  "requiredNumber e x = Inr n \<Longrightarrow>
     n \<noteq> NaN \<and> (x = Num n \<or> (\<exists>v. x = Str v \<and> v \<noteq> [] \<and> n = stringToNumber e v))"
  by (cases x) (auto simp: requiredNumber_def split: if_splits)

lemma newTransaction_Inr:
  "newTransaction e description amount category date type src dst dbt = Inr t \<Longrightarrow>
     \<exists>desc amt dt si di bi. description = Some desc \<and> desc \<noteq> []
       \<and> requiredNumber e amount = Inr amt
       \<and> dateField e (Some (dateNow e)) date = Inr dt
       \<and> castRef e src = Inr si \<and> castRef e dst = Inr di \<and> castRef e dbt = Inr bi
       \<and> enumOk transactionTypes type
       \<and> t = \<lparr> t_description = desc, t_amount = amt, t_category = category,
               t_date = dt,
               t_type = (case type of None \<Rightarrow> ''expense'' | Some ty \<Rightarrow> ty),
               t_sourceAccount = si, t_destinationAccount = di, t_debt = bi \<rparr>"
  by (auto simp: newTransaction_def enumOk_def split: option.splits sum.splits if_splits)

lemma saveBalance_Inr:
  "saveBalance e i acc v s = Inr (acc', s') \<longleftrightarrow>
     (\<exists>b. requiredNumber e v = Inr b \<and> acc' = acc\<lparr>balance := b\<rparr>
        \<and> s' = s\<lparr>bankAccounts := updateById i (acc\<lparr>balance := b\<rparr>) (bankAccounts s)\<rparr>)"
  by (auto simp: saveBalance_def split: sum.splits)

lemma saveDebtAmounts_Inr:
  "saveDebtAmounts e i d tot pen s = Inr s' \<longleftrightarrow>
     (\<exists>t p. requiredNumber e tot = Inr t \<and> requiredNumber e pen = Inr p
        \<and> s' = s\<lparr>debts := updateById i (d\<lparr>d_totalAmount := t, d_pendingAmount := p\<rparr>) (debts s)\<rparr>)"
  by (auto simp: saveDebtAmounts_def split: sum.splits)

lemma expense_unit_Inr:
  assumes "expense_unit e description amount category date sourceAccount s = Inr (t, s')"
  shows "\<exists>desc amt dt src i acc b'. description = Some desc \<and> desc \<noteq> [] \<and> truthy amount
      \<and> requiredNumber e amount = Inr amt
      \<and> dateField e (Some (dateNow e)) date = Inr dt
      \<and> sourceAccount = Some src \<and> castObjectId e src = Some i
      \<and> map_of (bankAccounts s) i = Some acc
      \<and> requiredNumber e (js_sub e (balance acc) amount) = Inr b'
      \<and> t = \<lparr> t_description = desc, t_amount = amt, t_category = category,
               t_date = dt, t_type = ''expense'',
               t_sourceAccount = Some i, t_destinationAccount = None, t_debt = None \<rparr>
      \<and> s' = s\<lparr>transactions := transactions s @ [t],
               bankAccounts := updateById i (acc\<lparr>balance := b'\<rparr>) (bankAccounts s)\<rparr>"
proof -
  from assms have g: "truthy_str description" "truthy amount" "truthy_str sourceAccount"
    unfolding expense_unit_def by (auto split: if_splits)
  from assms g obtain t0 where
    nt: "newTransaction e description amount category date (Some ''expense'')
           sourceAccount None None = Inr t0"
    unfolding expense_unit_def
    by (cases "newTransaction e description amount category date (Some ''expense'')
           sourceAccount None None") auto
  from assms g nt obtain i acc where
    fa: "findById e (bankAccounts s) sourceAccount = Inr (Some (i, acc))"
    unfolding expense_unit_def
    by (cases "findById e (bankAccounts s) sourceAccount")
       (auto simp: Let_def split: option.splits)
  from assms g nt fa obtain b' where
    sb: "requiredNumber e (js_sub e (balance acc) amount) = Inr b'"
    and res: "t = t0"
      "s' = s\<lparr>transactions := transactions s @ [t0],
              bankAccounts := updateById i (acc\<lparr>balance := b'\<rparr>) (bankAccounts s)\<rparr>"
    unfolding expense_unit_def
    by (auto simp: Let_def saveBalance_def split: sum.splits)
  from fa obtain src where
    src: "sourceAccount = Some src" "castObjectId e src = Some i"
      "map_of (bankAccounts s) i = Some acc"
    by (auto simp: findById_Some)
  from newTransaction_Inr [OF nt] src obtain desc amt dt where
    "description = Some desc" "desc \<noteq> []" "requiredNumber e amount = Inr amt"
    "dateField e (Some (dateNow e)) date = Inr dt"
    "t0 = \<lparr> t_description = desc, t_amount = amt, t_category = category,
               t_date = dt, t_type = ''expense'',
               t_sourceAccount = Some i, t_destinationAccount = None, t_debt = None \<rparr>"
    by (auto simp: castRef_def)
  with g src sb res show ?thesis by blast
qed

lemma income_unit_Inr:
  assumes "income_unit e description amount category date destinationAccount s = Inr (t, s')"
  shows "\<exists>desc amt dt dst i acc b'. description = Some desc \<and> desc \<noteq> [] \<and> truthy amount
      \<and> requiredNumber e amount = Inr amt
      \<and> dateField e (Some (dateNow e)) date = Inr dt
      \<and> destinationAccount = Some dst \<and> castObjectId e dst = Some i
      \<and> map_of (bankAccounts s) i = Some acc
      \<and> requiredNumber e (js_add e (balance acc) amount) = Inr b'
      \<and> t = \<lparr> t_description = desc, t_amount = amt, t_category = category,
               t_date = dt, t_type = ''income'',
               t_sourceAccount = None, t_destinationAccount = Some i, t_debt = None \<rparr>
      \<and> s' = s\<lparr>transactions := transactions s @ [t],
               bankAccounts := updateById i (acc\<lparr>balance := b'\<rparr>) (bankAccounts s)\<rparr>"
proof -
  from assms have g: "truthy_str description" "truthy amount" "truthy_str destinationAccount"
    unfolding income_unit_def by (auto split: if_splits)
  from assms g obtain t0 where
    nt: "newTransaction e description amount category date (Some ''income'')
           None destinationAccount None = Inr t0"
    unfolding income_unit_def
    by (cases "newTransaction e description amount category date (Some ''income'')
           None destinationAccount None") auto
  from assms g nt obtain i acc where
    fa: "findById e (bankAccounts s) destinationAccount = Inr (Some (i, acc))"
    unfolding income_unit_def
    by (cases "findById e (bankAccounts s) destinationAccount")
       (auto simp: Let_def split: option.splits)
  from assms g nt fa obtain b' where
    sb: "requiredNumber e (js_add e (balance acc) amount) = Inr b'"
    and res: "t = t0"
      "s' = s\<lparr>transactions := transactions s @ [t0],
              bankAccounts := updateById i (acc\<lparr>balance := b'\<rparr>) (bankAccounts s)\<rparr>"
    unfolding income_unit_def
    by (auto simp: Let_def saveBalance_def split: sum.splits)
  from fa obtain dst where
    dst: "destinationAccount = Some dst" "castObjectId e dst = Some i"
      "map_of (bankAccounts s) i = Some acc"
    by (auto simp: findById_Some)
  from newTransaction_Inr [OF nt] dst obtain desc amt dt where
    "description = Some desc" "desc \<noteq> []" "requiredNumber e amount = Inr amt"
    "dateField e (Some (dateNow e)) date = Inr dt"
    "t0 = \<lparr> t_description = desc, t_amount = amt, t_category = category,
               t_date = dt, t_type = ''income'',
               t_sourceAccount = None, t_destinationAccount = Some i, t_debt = None \<rparr>"
    by (auto simp: castRef_def)
  with g dst sb res show ?thesis by blast
qed

lemma selfTransfer_unit_Inr:
  assumes "selfTransfer_unit e amount sourceAccount destinationAccount description s = Inr (t, s')"
  shows "\<exists>desc amt src dst i j accI accJ bi' bj'. description = Some desc \<and> desc \<noteq> []
      \<and> truthy amount \<and> requiredNumber e amount = Inr amt
      \<and> sourceAccount = Some src \<and> castObjectId e src = Some i
      \<and> destinationAccount = Some dst \<and> castObjectId e dst = Some j
      \<and> map_of (bankAccounts s) i = Some accI
      \<and> requiredNumber e (js_sub e (balance accI) amount) = Inr bi'
      \<and> map_of (updateById i (accI\<lparr>balance := bi'\<rparr>) (bankAccounts s)) j = Some accJ
      \<and> requiredNumber e (js_add e (balance accJ) amount) = Inr bj'
      \<and> t = \<lparr> t_description = desc, t_amount = amt, t_category = None,
               t_date = Some (dateNow e), t_type = ''self-transfer'',
               t_sourceAccount = Some i, t_destinationAccount = Some j, t_debt = None \<rparr>
      \<and> s' = s\<lparr>transactions := transactions s @ [t],
               bankAccounts := updateById j (accJ\<lparr>balance := bj'\<rparr>)
                   (updateById i (accI\<lparr>balance := bi'\<rparr>) (bankAccounts s))\<rparr>"
proof -
  from assms have g: "truthy amount" "truthy_str sourceAccount" "truthy_str destinationAccount"
    unfolding selfTransfer_unit_def by (auto split: if_splits)
  from assms g obtain t0 where
    nt: "newTransaction e description amount None Undefined (Some ''self-transfer'')
           sourceAccount destinationAccount None = Inr t0"
    unfolding selfTransfer_unit_def
    by (cases "newTransaction e description amount None Undefined (Some ''self-transfer'')
           sourceAccount destinationAccount None") auto
  from assms g nt obtain i accI where
    fi: "findById e (bankAccounts s) sourceAccount = Inr (Some (i, accI))"
    unfolding selfTransfer_unit_def
    by (cases "findById e (bankAccounts s) sourceAccount")
       (auto simp: Let_def split: option.splits)
  from assms g nt fi obtain bi' where
    si: "requiredNumber e (js_sub e (balance accI) amount) = Inr bi'"
    unfolding selfTransfer_unit_def
    by (cases "requiredNumber e (js_sub e (balance accI) amount)")
       (auto simp: Let_def saveBalance_def)
  let ?c1 = "updateById i (accI\<lparr>balance := bi'\<rparr>) (bankAccounts s)"
  from assms g nt fi si obtain j accJ where
    fj: "findById e ?c1 destinationAccount = Inr (Some (j, accJ))"
    unfolding selfTransfer_unit_def
    by (cases "findById e ?c1 destinationAccount")
       (auto simp: Let_def saveBalance_def split: option.splits)
  from assms g nt fi si fj obtain bj' where
    sj: "requiredNumber e (js_add e (balance accJ) amount) = Inr bj'"
    and res: "t = t0"
      "s' = s\<lparr>transactions := transactions s @ [t0],
              bankAccounts := updateById j (accJ\<lparr>balance := bj'\<rparr>) ?c1\<rparr>"
    unfolding selfTransfer_unit_def
    by (auto simp: Let_def saveBalance_def split: sum.splits)
  from fi obtain src where
    src: "sourceAccount = Some src" "castObjectId e src = Some i"
      "map_of (bankAccounts s) i = Some accI"
    by (auto simp: findById_Some)
  from fj obtain dst where
    dst: "destinationAccount = Some dst" "castObjectId e dst = Some j"
      "map_of ?c1 j = Some accJ"
    by (auto simp: findById_Some)
  from newTransaction_Inr [OF nt] src dst obtain desc amt where
    "description = Some desc" "desc \<noteq> []" "requiredNumber e amount = Inr amt"
    "t0 = \<lparr> t_description = desc, t_amount = amt, t_category = None,
               t_date = Some (dateNow e), t_type = ''self-transfer'',
               t_sourceAccount = Some i, t_destinationAccount = Some j, t_debt = None \<rparr>"
    by (auto simp: castRef_def dateField_def)
  with g src dst si sj res show ?thesis by blast
qed

lemma debtTransaction_unit_Inr:
  assumes "debtTransaction_unit e debtId description amount category date type sourceAccount s
             = Inr (t, s')"
  shows "\<exists>desc amt dt ty src si di debt name ai acc b' tot pen. description = Some desc
      \<and> desc \<noteq> [] \<and> truthy amount \<and> requiredNumber e amount = Inr amt
      \<and> dateField e (Some (dateNow e)) date = Inr dt
      \<and> type = Some ty \<and> ty \<in> set transactionTypes
      \<and> sourceAccount = Some src \<and> castObjectId e src = Some si
      \<and> castObjectId e debtId = Some di \<and> map_of (debts s) di = Some debt
      \<and> (if d_type debt = ''positive'' then d_debtor debt else d_creditor debt) = Some name
      \<and> castObjectId e name = Some ai
      \<and> map_of (bankAccounts s) ai = Some acc
      \<and> requiredNumber e (js_add e (balance acc)
           (if d_type debt = ''positive'' then amount else js_neg e amount)) = Inr b'
      \<and> requiredNumber e (js_add e (d_totalAmount debt) amount) = Inr tot
      \<and> requiredNumber e (js_add e (d_pendingAmount debt) amount) = Inr pen
      \<and> t = \<lparr> t_description = desc, t_amount = amt, t_category = category,
               t_date = dt, t_type = ty,
               t_sourceAccount = Some si, t_destinationAccount = None, t_debt = Some di \<rparr>
      \<and> s' = s\<lparr>transactions := transactions s @ [t],
               bankAccounts := updateById ai (acc\<lparr>balance := b'\<rparr>) (bankAccounts s),
               debts := updateById di
                  (debt\<lparr>d_totalAmount := tot, d_pendingAmount := pen\<rparr>) (debts s)\<rparr>"
proof -
  from assms have g: "truthy_str description" "truthy amount" "truthy_str type"
      "truthy_str sourceAccount"
    unfolding debtTransaction_unit_def by (auto split: if_splits)
  from assms g obtain di debt where
    fd: "findById e (debts s) (Some debtId) = Inr (Some (di, debt))"
    unfolding debtTransaction_unit_def
    by (cases "findById e (debts s) (Some debtId)") (auto split: option.splits)
  then have dbt: "castObjectId e debtId = Some di" "map_of (debts s) di = Some debt"
    by (simp_all add: findById_Some)
  from assms g fd obtain t0 where
    nt: "newTransaction e description amount category date type sourceAccount None
           (Some debtId) = Inr t0"
    unfolding debtTransaction_unit_def
    by (cases "newTransaction e description amount category date type sourceAccount None
           (Some debtId)") (auto simp: Let_def)
  let ?ref = "if d_type debt = ''positive'' then d_debtor debt else d_creditor debt"
  let ?delta = "if d_type debt = ''positive'' then amount else js_neg e amount"
  from assms g fd nt obtain ai acc where
    fa: "findById e (bankAccounts s) ?ref = Inr (Some (ai, acc))"
    unfolding debtTransaction_unit_def
    by (cases "findById e (bankAccounts s) ?ref")
       (auto simp: Let_def split: option.splits if_splits)
  then obtain name where
    nm: "?ref = Some name" "castObjectId e name = Some ai" "map_of (bankAccounts s) ai = Some acc"
    by (auto simp: findById_Some)
  from assms g fd nt fa obtain b' where
    sb: "requiredNumber e (js_add e (balance acc) ?delta) = Inr b'"
    unfolding debtTransaction_unit_def
    by (cases "requiredNumber e (js_add e (balance acc) ?delta)")
       (auto simp: Let_def saveBalance_def split: if_splits)
  from assms g fd nt fa sb obtain tot pen where
    sd: "requiredNumber e (js_add e (d_totalAmount debt) amount) = Inr tot"
      "requiredNumber e (js_add e (d_pendingAmount debt) amount) = Inr pen"
    and res: "t = t0"
      "s' = s\<lparr>transactions := transactions s @ [t0],
               bankAccounts := updateById ai (acc\<lparr>balance := b'\<rparr>) (bankAccounts s),
               debts := updateById di
                  (debt\<lparr>d_totalAmount := tot, d_pendingAmount := pen\<rparr>) (debts s)\<rparr>"
    unfolding debtTransaction_unit_def
    by (auto simp: Let_def saveBalance_def saveDebtAmounts_def split: if_splits sum.splits)
  from g obtain ty src where ts: "type = Some ty" "sourceAccount = Some src"
    by (auto simp: truthy_str_iff)
  from newTransaction_Inr [OF nt] ts dbt obtain desc amt dt si where
    "description = Some desc" "desc \<noteq> []" "requiredNumber e amount = Inr amt"
    "dateField e (Some (dateNow e)) date = Inr dt"
    "castObjectId e src = Some si" "ty \<in> set transactionTypes"
    "t0 = \<lparr> t_description = desc, t_amount = amt, t_category = category,
               t_date = dt, t_type = ty,
               t_sourceAccount = Some si, t_destinationAccount = None, t_debt = Some di \<rparr>"
    by (auto simp: castRef_def enumOk_def split: option.splits)
  with g ts dbt nm sb sd res show ?thesis by blast
qed

lemma accountExists_iff:
  "accountExists e s ref \<longleftrightarrow>
     (\<exists>v i acc. ref = Some v \<and> castObjectId e v = Some i \<and> map_of (bankAccounts s) i = Some acc)"
  by (auto simp: accountExists_def findById_def castRef_def split: option.splits sum.splits)

lemma inSession_Inl:
  "inSession code msg (Inl err) s = (Response 500 (ErrorBody ''Internal Server Error''), s)"
  by (simp add: inSession_def)

lemma inSession_ok:
  "inSession code msg r s = (Response code' bdy, s') \<Longrightarrow> code' \<noteq> 500 \<Longrightarrow>
     \<exists>t. r = Inr (t, s') \<and> bdy = TransactionBody msg t \<and> code' = code"
  by (auto simp: inSession_def split: sum.splits)

lemma inSession_snd:
  "snd (inSession code msg r s) = s \<or> (\<exists>t. r = Inr (t, snd (inSession code msg r s)))"
  by (auto simp: inSession_def split: sum.splits)

lemma not_Inr_Inl: "(\<And>y. r \<noteq> Inr y) \<Longrightarrow> \<exists>err. r = Inl err"
  by (cases r) auto


text \<open>What each handler can do to the store.\<close>

lemma post_expense_store:
  "snd (post_expense e description amount category date sourceAccount s) = s
   \<or> (\<exists>t i acc b'. truthy amount \<and> requiredNumber e amount = Inr (t_amount t)
         \<and> snd (post_expense e description amount category date sourceAccount s)
             = s\<lparr>transactions := transactions s @ [t],
                 bankAccounts := updateById i (acc\<lparr>balance := b'\<rparr>) (bankAccounts s)\<rparr>)"
proof -
  let ?s' = "snd (post_expense e description amount category date sourceAccount s)"
  consider "?s' = s"
    | t where "expense_unit e description amount category date sourceAccount s = Inr (t, ?s')"
    using inSession_snd [of 200 "''Expense added successfully''"
      "expense_unit e description amount category date sourceAccount s" s]
    unfolding post_expense_def by blast
  then show ?thesis
  proof cases
    case 1
    then show ?thesis by blast
  next
    case 2
    from expense_unit_Inr [OF 2] obtain amt i acc b' where
      "truthy amount" "requiredNumber e amount = Inr amt" "t_amount t = amt"
      "?s' = s\<lparr>transactions := transactions s @ [t],
                 bankAccounts := updateById i (acc\<lparr>balance := b'\<rparr>) (bankAccounts s)\<rparr>"
      by auto
    then show ?thesis by blast
  qed
qed

lemma post_income_store:
  "snd (post_income e description amount category date destinationAccount s) = s
   \<or> (\<exists>t i acc b'. truthy amount \<and> requiredNumber e amount = Inr (t_amount t)
         \<and> snd (post_income e description amount category date destinationAccount s)
             = s\<lparr>transactions := transactions s @ [t],
                 bankAccounts := updateById i (acc\<lparr>balance := b'\<rparr>) (bankAccounts s)\<rparr>)"
proof -
  let ?s' = "snd (post_income e description amount category date destinationAccount s)"
  consider "?s' = s"
    | t where "income_unit e description amount category date destinationAccount s = Inr (t, ?s')"
    using inSession_snd [of 200 "''Income added successfully''"
      "income_unit e description amount category date destinationAccount s" s]
    unfolding post_income_def by blast
  then show ?thesis
  proof cases
    case 1
    then show ?thesis by blast
  next
    case 2
    from income_unit_Inr [OF 2] obtain amt i acc b' where
      "truthy amount" "requiredNumber e amount = Inr amt" "t_amount t = amt"
      "?s' = s\<lparr>transactions := transactions s @ [t],
                 bankAccounts := updateById i (acc\<lparr>balance := b'\<rparr>) (bankAccounts s)\<rparr>"
      by auto
    then show ?thesis by blast
  qed
qed

lemma post_selfTransfer_store:
  "snd (post_selfTransfer e amount sourceAccount destinationAccount description s) = s
   \<or> (\<exists>t i j accI accJ bi' bj'. truthy amount \<and> requiredNumber e amount = Inr (t_amount t)
         \<and> snd (post_selfTransfer e amount sourceAccount destinationAccount description s)
             = s\<lparr>transactions := transactions s @ [t],
                 bankAccounts := updateById j (accJ\<lparr>balance := bj'\<rparr>)
                   (updateById i (accI\<lparr>balance := bi'\<rparr>) (bankAccounts s))\<rparr>)"
proof -
  let ?s' = "snd (post_selfTransfer e amount sourceAccount destinationAccount description s)"
  consider "?s' = s"
    | t where "selfTransfer_unit e amount sourceAccount destinationAccount description s
                 = Inr (t, ?s')"
    using inSession_snd [of 200 "''Self-transfer completed successfully''"
      "selfTransfer_unit e amount sourceAccount destinationAccount description s" s]
    unfolding post_selfTransfer_def by blast
  then show ?thesis
  proof cases
    case 1
    then show ?thesis by blast
  next
    case 2
    from selfTransfer_unit_Inr [OF 2] obtain amt i j accI accJ bi' bj' where
      "truthy amount" "requiredNumber e amount = Inr amt" "t_amount t = amt"
      "?s' = s\<lparr>transactions := transactions s @ [t],
                 bankAccounts := updateById j (accJ\<lparr>balance := bj'\<rparr>)
                   (updateById i (accI\<lparr>balance := bi'\<rparr>) (bankAccounts s))\<rparr>"
      by auto
    then show ?thesis by blast
  qed
qed

lemma post_debtTransaction_store:
  "snd (post_debtTransaction e debtId description amount category date type sourceAccount s) = s
   \<or> (\<exists>t di debt ai acc b' tot pen. truthy amount
         \<and> requiredNumber e amount = Inr (t_amount t)
         \<and> map_of (debts s) di = Some debt
         \<and> snd (post_debtTransaction e debtId description amount category date type sourceAccount s)
             = s\<lparr>transactions := transactions s @ [t],
                 bankAccounts := updateById ai (acc\<lparr>balance := b'\<rparr>) (bankAccounts s),
                 debts := updateById di
                   (debt\<lparr>d_totalAmount := tot, d_pendingAmount := pen\<rparr>) (debts s)\<rparr>)"
proof -
  let ?s' = "snd (post_debtTransaction e debtId description amount category date type
                    sourceAccount s)"
  consider "?s' = s"
    | t where "debtTransaction_unit e debtId description amount category date type
                 sourceAccount s = Inr (t, ?s')"
    using inSession_snd [of 201 "''Debt transaction created successfully''"
      "debtTransaction_unit e debtId description amount category date type sourceAccount s" s]
    unfolding post_debtTransaction_def by blast
  then show ?thesis
  proof cases
    case 1
    then show ?thesis by blast
  next
    case 2
    from debtTransaction_unit_Inr [OF 2] obtain amt di debt ai acc b' tot pen where
      "truthy amount" "requiredNumber e amount = Inr amt" "t_amount t = amt"
      "map_of (debts s) di = Some debt"
      "?s' = s\<lparr>transactions := transactions s @ [t],
                 bankAccounts := updateById ai (acc\<lparr>balance := b'\<rparr>) (bankAccounts s),
                 debts := updateById di
                   (debt\<lparr>d_totalAmount := tot, d_pendingAmount := pen\<rparr>) (debts s)\<rparr>"
      by auto
    then show ?thesis by blast
  qed
qed

lemma post_bankAccount_store:
  "snd (post_bankAccount e accountNumber' s) = s
   \<or> (\<exists>a. map_of (bankAccounts s) (newObjectId e) = None
         \<and> snd (post_bankAccount e accountNumber' s)
             = s\<lparr>bankAccounts := bankAccounts s @ [(newObjectId e, a)]\<rparr>)"
  by (auto simp: post_bankAccount_def insertDoc_def split: option.splits sum.splits)

lemma patch_updateBalance_store:
  "snd (patch_updateBalance e accountId newBalance s) = s
   \<or> (\<exists>i acc n. snd (patch_updateBalance e accountId newBalance s)
             = s\<lparr>bankAccounts := updateById i (acc\<lparr>balance := n\<rparr>) (bankAccounts s)\<rparr>)"
  by (auto simp: patch_updateBalance_def saveBalance_def
        split: option.splits sum.splits)

lemma post_debt_store:
  "snd (post_debt e b s) = s
   \<or> (\<exists>d. map_of (debts s) (newObjectId e) = None
         \<and> snd (post_debt e b s) = s\<lparr>debts := debts s @ [(newObjectId e, d)]\<rparr>)"
  by (auto simp: post_debt_def insertDoc_def split: option.splits sum.splits)

lemma patch_updateStatus_store:
  "snd (patch_updateStatus e debtId newStatus s) = s
   \<or> (\<exists>i d st. snd (patch_updateStatus e debtId newStatus s)
             = s\<lparr>debts := updateById i (d\<lparr>d_status := st\<rparr>) (debts s)\<rparr>)"
  by (auto simp: patch_updateStatus_def saveStatus_def split: option.splits sum.splits if_splits)

lemma get_store:
  "snd (get_bankAccounts s) = s" "snd (get_bankAccount e accountId s) = s"
  "snd (get_debts s) = s" "snd (get_debt e debtId s) = s"
  by (auto simp: get_bankAccounts_def get_bankAccount_def get_debts_def get_debt_def
        split: option.splits sum.splits)

section \<open>The claims\<close>

text \<open>
  C1. For every expense, income or self-transfer request in which a referenced account
  (source or destination) does not exist in the store, the operation fails and leaves the
  store entirely unchanged: no Transaction record is persisted and no account's balance
  differs from its value before the request. The reference may be absent from the request,
  may fail to cast, or may cast to an id that no stored account has; in the self-transfer
  one of the two accounts may exist and already have been written inside the unit.
\<close>

theorem missing_account_aborts:
  "(\<not> accountExists e s sourceAccount \<longrightarrow>
      post_expense e description amount category date sourceAccount s
        = (Response 500 (ErrorBody ''Internal Server Error''), s))
   \<and> (\<not> accountExists e s destinationAccount \<longrightarrow>
      post_income e description amount category date destinationAccount s
        = (Response 500 (ErrorBody ''Internal Server Error''), s))
   \<and> (\<not> accountExists e s sourceAccount \<or> \<not> accountExists e s destinationAccount \<longrightarrow>
      post_selfTransfer e amount sourceAccount destinationAccount description s
        = (Response 500 (ErrorBody ''Internal Server Error''), s))"
proof (intro conjI impI)
  assume missing: "\<not> accountExists e s sourceAccount"
  have "expense_unit e description amount category date sourceAccount s \<noteq> Inr y" for y
    using missing
      expense_unit_Inr [of e description amount category date sourceAccount s "fst y" "snd y"]
    by (auto simp: accountExists_iff)
  then obtain err where
    "expense_unit e description amount category date sourceAccount s = Inl err"
    using not_Inr_Inl by blast
  then show "post_expense e description amount category date sourceAccount s
        = (Response 500 (ErrorBody ''Internal Server Error''), s)"
    by (simp add: post_expense_def inSession_Inl)
next
  assume missing: "\<not> accountExists e s destinationAccount"
  have "income_unit e description amount category date destinationAccount s \<noteq> Inr y" for y
    using missing
      income_unit_Inr [of e description amount category date destinationAccount s "fst y" "snd y"]
    by (auto simp: accountExists_iff)
  then obtain err where
    "income_unit e description amount category date destinationAccount s = Inl err"
    using not_Inr_Inl by blast
  then show "post_income e description amount category date destinationAccount s
        = (Response 500 (ErrorBody ''Internal Server Error''), s)"
    by (simp add: post_income_def inSession_Inl)
next
  assume missing: "\<not> accountExists e s sourceAccount \<or> \<not> accountExists e s destinationAccount"
  have "selfTransfer_unit e amount sourceAccount destinationAccount description s \<noteq> Inr y" for y
    using missing
      selfTransfer_unit_Inr [of e amount sourceAccount destinationAccount description s
        "fst y" "snd y"]
    by (auto simp: accountExists_iff map_of_updateById split: if_splits)
  then obtain err where
    "selfTransfer_unit e amount sourceAccount destinationAccount description s = Inl err"
    using not_Inr_Inl by blast
  then show "post_selfTransfer e amount sourceAccount destinationAccount description s
        = (Response 500 (ErrorBody ''Internal Server Error''), s)"
    by (simp add: post_selfTransfer_def inSession_Inl)
qed

theorem missing_account_aborts_witness:
  "\<not> accountExists exampleEnv exampleStore (Some ''a3'')
   \<and> accountExists exampleEnv exampleStore (Some ''a1'')
   \<and> post_expense exampleEnv (Some ''rent'') (Num (num 40)) None Undefined (Some ''a3'')
        exampleStore
        = (Response 500 (ErrorBody ''Internal Server Error''), exampleStore)
   \<and> post_income exampleEnv (Some ''pay'') (Num (num 40)) None Undefined (Some ''a3'')
        exampleStore
        = (Response 500 (ErrorBody ''Internal Server Error''), exampleStore)
   \<and> post_selfTransfer exampleEnv (Num (num 20)) (Some ''a1'') (Some ''a3'') (Some ''move'')
        exampleStore
        = (Response 500 (ErrorBody ''Internal Server Error''), exampleStore)"
proof -
  have absent: "\<not> accountExists exampleEnv exampleStore (Some ''a3'')"
    by (simp add: accountExists_def findById_def castRef_def exampleEnv_def exampleStore_def)
  have present: "accountExists exampleEnv exampleStore (Some ''a1'')"
    by (simp add: accountExists_def findById_def castRef_def exampleEnv_def exampleStore_def)
  note inst1 = missing_account_aborts [where e = exampleEnv and s = exampleStore
       and sourceAccount = "Some ''a3''" and destinationAccount = "Some ''a3''"]
  note inst2 = missing_account_aborts [where e = exampleEnv and s = exampleStore
       and sourceAccount = "Some ''a1''" and destinationAccount = "Some ''a3''"]
  from absent present inst1 inst2 show ?thesis by blast
qed

lemma example_debtTransaction_status:
  "d = ''d1'' \<or> d = ''d2'' \<Longrightarrow>
   status (fst (post_debtTransaction exampleEnv d (Some ''repay'') (Num (num 30)) None Undefined
       (Some ''debt'') (Some ''a1'') exampleStore)) = 201"
  by (auto simp add: post_debtTransaction_def inSession_def debtTransaction_unit_def
        truthy_str_def newTransaction_def transactionTypes_def dateField_def castRef_def
        findById_def saveBalance_def saveDebtAmounts_def requiredNumber_Num js_neg_def
        num_add_num num_neg_num num_inject num_not_NaN Let_def
        exampleEnv_def exampleStore_def exampleDebt_def)

text \<open>
  C2, as amended. For every successful debt-transaction request with a numeric amount
  against a debt with type "positive", the debtor's account balance becomes its balance
  plus amount; against a debt with type "negative", the creditor's account balance becomes
  its balance minus amount; and in both cases the debt's totalAmount and pendingAmount each
  become their value plus amount. Each result is computed as JavaScript computes it: the
  double nearest to it, which is the exact result whenever the operands and the result are
  integers of magnitude at most \<open>2\<^sup>5\<^sup>3\<close>. The debtor's (creditor's) account is the one the
  handler looks up: the account whose \<^verbatim>\<open>_id\<close> the debt's \<^verbatim>\<open>debtor\<close> (\<^verbatim>\<open>creditor\<close>) string
  casts to.
\<close>

theorem debtTransaction_effect:
  assumes "post_debtTransaction e debtId description amount category date type sourceAccount s
             = (Response 201 bdy, s')"
    and "castObjectId e debtId = Some di" and "debtOf s di = Some debt"
    and "amount = Num a"
  shows "debtOf s' di = Some (debt\<lparr>d_totalAmount := num_add (d_totalAmount debt) a,
                                   d_pendingAmount := num_add (d_pendingAmount debt) a\<rparr>)
       \<and> (d_type debt = ''positive'' \<longrightarrow>
            (\<exists>name ai b. d_debtor debt = Some name \<and> castObjectId e name = Some ai
               \<and> balanceOf s ai = Some b \<and> balanceOf s' ai = Some (num_add b a)))
       \<and> (d_type debt = ''negative'' \<longrightarrow>
            (\<exists>name ai b. d_creditor debt = Some name \<and> castObjectId e name = Some ai
               \<and> balanceOf s ai = Some b \<and> balanceOf s' ai = Some (num_sub b a)))
       \<and> (\<forall>v x y. represents v x \<and> represents a y \<longrightarrow>
             (\<bar>x + y\<bar> \<le> 2 ^ 53 \<longrightarrow> represents (num_add v a) (x + y))
           \<and> (\<bar>x - y\<bar> \<le> 2 ^ 53 \<longrightarrow> represents (num_sub v a) (x - y)))"
proof -
  from assms(1) obtain t where
    unit: "debtTransaction_unit e debtId description amount category date type sourceAccount s
             = Inr (t, s')"
    unfolding post_debtTransaction_def by (auto dest!: inSession_ok)
  from debtTransaction_unit_Inr [OF unit] assms(2,3) obtain name ai acc b' tot pen where
    nm: "(if d_type debt = ''positive'' then d_debtor debt else d_creditor debt) = Some name"
        "castObjectId e name = Some ai" "map_of (bankAccounts s) ai = Some acc"
    and sb: "requiredNumber e (js_add e (balance acc)
           (if d_type debt = ''positive'' then amount else js_neg e amount)) = Inr b'"
    and sd: "requiredNumber e (js_add e (d_totalAmount debt) amount) = Inr tot"
      "requiredNumber e (js_add e (d_pendingAmount debt) amount) = Inr pen"
    and s': "s' = s\<lparr>transactions := transactions s @ [t],
               bankAccounts := updateById ai (acc\<lparr>balance := b'\<rparr>) (bankAccounts s),
               debts := updateById di
                  (debt\<lparr>d_totalAmount := tot, d_pendingAmount := pen\<rparr>) (debts s)\<rparr>"
    by (auto simp: debtOf_def)
  from sd assms(4) have tp: "tot = num_add (d_totalAmount debt) a"
      "pen = num_add (d_pendingAmount debt) a"
    by (auto simp: requiredNumber_Num split: if_splits)
  from sb assms(4) have b': "b' = (if d_type debt = ''positive'' then num_add (balance acc) a
                                  else num_sub (balance acc) a)"
    by (auto simp: requiredNumber_Num js_neg_def num_sub_def split: if_splits)
  from assms(3) s' tp have "debtOf s' di = Some (debt\<lparr>d_totalAmount := num_add (d_totalAmount debt) a,
                                   d_pendingAmount := num_add (d_pendingAmount debt) a\<rparr>)"
    by (simp add: debtOf_def map_of_updateById)
  moreover from nm s' b' have "d_type debt = ''positive'' \<longrightarrow>
            (\<exists>name ai b. d_debtor debt = Some name \<and> castObjectId e name = Some ai
               \<and> balanceOf s ai = Some b \<and> balanceOf s' ai = Some (num_add b a))"
    by (auto simp: balanceOf_def map_of_updateById)
  moreover from nm s' b' have "d_type debt = ''negative'' \<longrightarrow>
            (\<exists>name ai b. d_creditor debt = Some name \<and> castObjectId e name = Some ai
               \<and> balanceOf s ai = Some b \<and> balanceOf s' ai = Some (num_sub b a))"
    by (auto simp: balanceOf_def map_of_updateById)
  moreover have "\<forall>v x y. represents v x \<and> represents a y \<longrightarrow>
             (\<bar>x + y\<bar> \<le> 2 ^ 53 \<longrightarrow> represents (num_add v a) (x + y))
           \<and> (\<bar>x - y\<bar> \<le> 2 ^ 53 \<longrightarrow> represents (num_sub v a) (x - y))"
    by (simp add: num_add_exact num_sub_exact)
  ultimately show ?thesis by blast
qed

text \<open>
  The claim as stated fails in two ways. A debt transaction of 1 against the positive debt
  whose debtor's balance is \<open>2\<^sup>5\<^sup>3\<close> is answered with 201 and leaves the balance at \<open>2\<^sup>5\<^sup>3\<close>. A
  debt transaction whose amount is the string \<^verbatim>\<open>"30"\<close>, against the positive debt with
  totalAmount and pendingAmount 50 and a debtor's balance of 100, is answered with 201 and
  leaves totalAmount and pendingAmount at 5030 and the balance at 10030.
\<close>

theorem debtTransaction_exact_counterexample:
  "status (fst (post_debtTransaction exampleEnv ''d1'' (Some ''repay'') (Num (num 1)) None
       Undefined (Some ''debt'') (Some ''a1'') edgeStore)) = 201
   \<and> map_option d_type (debtOf edgeStore 11) = Some ''positive''
   \<and> balanceOf edgeStore 1 = Some (num (2 ^ 53))
   \<and> balanceOf (snd (post_debtTransaction exampleEnv ''d1'' (Some ''repay'') (Num (num 1)) None
       Undefined (Some ''debt'') (Some ''a1'') edgeStore)) 1 = Some (num (2 ^ 53))
   \<and> status (fst (post_debtTransaction exampleEnv ''d1'' (Some ''repay'') (Str ''30'') None
       Undefined (Some ''debt'') (Some ''a1'') exampleStore)) = 201
   \<and> map_option d_totalAmount (debtOf exampleStore 11) = Some (num 50)
   \<and> map_option d_pendingAmount (debtOf exampleStore 11) = Some (num 50)
   \<and> balanceOf exampleStore 1 = Some (num 100)
   \<and> map_option d_totalAmount (debtOf (snd (post_debtTransaction exampleEnv ''d1''
       (Some ''repay'') (Str ''30'') None Undefined (Some ''debt'') (Some ''a1'')
       exampleStore)) 11) = Some (num 5030)
   \<and> map_option d_pendingAmount (debtOf (snd (post_debtTransaction exampleEnv ''d1''
       (Some ''repay'') (Str ''30'') None Undefined (Some ''debt'') (Some ''a1'')
       exampleStore)) 11) = Some (num 5030)
   \<and> balanceOf (snd (post_debtTransaction exampleEnv ''d1'' (Some ''repay'') (Str ''30'') None
       Undefined (Some ''debt'') (Some ''a1'') exampleStore)) 1 = Some (num 10030)"
proof -
  have sum: "num_add (num (2 ^ 53)) (num 1) = num (2 ^ 53)"
    using num_add_num [of "2 ^ 53" 1] num_2_53_plus_1 by simp
  have run1: "status (fst (post_debtTransaction exampleEnv ''d1'' (Some ''repay'') (Num (num 1))
       None Undefined (Some ''debt'') (Some ''a1'') edgeStore)) = 201"
    "balanceOf (snd (post_debtTransaction exampleEnv ''d1'' (Some ''repay'') (Num (num 1)) None
       Undefined (Some ''debt'') (Some ''a1'') edgeStore)) 1 = Some (num (2 ^ 53))"
    using sum
    by (simp_all add: post_debtTransaction_def inSession_def debtTransaction_unit_def
          truthy_str_def newTransaction_def transactionTypes_def dateField_def castRef_def
          findById_def saveBalance_def saveDebtAmounts_def requiredNumber_Num
          num_add_num num_inject num_not_NaN Let_def balanceOf_def
          exampleEnv_def edgeStore_def exampleDebt_def)
  have run2: "status (fst (post_debtTransaction exampleEnv ''d1'' (Some ''repay'') (Str ''30'')
       None Undefined (Some ''debt'') (Some ''a1'') exampleStore)) = 201"
    "map_option d_totalAmount (debtOf (snd (post_debtTransaction exampleEnv ''d1''
       (Some ''repay'') (Str ''30'') None Undefined (Some ''debt'') (Some ''a1'')
       exampleStore)) 11) = Some (num 5030)"
    "map_option d_pendingAmount (debtOf (snd (post_debtTransaction exampleEnv ''d1''
       (Some ''repay'') (Str ''30'') None Undefined (Some ''debt'') (Some ''a1'')
       exampleStore)) 11) = Some (num 5030)"
    "balanceOf (snd (post_debtTransaction exampleEnv ''d1'' (Some ''repay'') (Str ''30'') None
       Undefined (Some ''debt'') (Some ''a1'') exampleStore)) 1 = Some (num 10030)"
    by (simp_all add: post_debtTransaction_def inSession_def debtTransaction_unit_def
          truthy_str_def newTransaction_def transactionTypes_def dateField_def castRef_def
          findById_def saveBalance_def saveDebtAmounts_def requiredNumber_Num requiredNumber_Str
          num_inject num_not_NaN Let_def balanceOf_def debtOf_def
          exampleEnv_def exampleStore_def exampleDebt_def)
  have before: "map_option d_type (debtOf edgeStore 11) = Some ''positive''"
    "balanceOf edgeStore 1 = Some (num (2 ^ 53))"
    "map_option d_totalAmount (debtOf exampleStore 11) = Some (num 50)"
    "map_option d_pendingAmount (debtOf exampleStore 11) = Some (num 50)"
    "balanceOf exampleStore 1 = Some (num 100)"
    by (simp_all add: balanceOf_def debtOf_def edgeStore_def exampleStore_def exampleDebt_def)
  from run1 run2 before show ?thesis by blast
qed

theorem debtTransaction_effect_witness:
  "(\<exists>bdy s' b. post_debtTransaction exampleEnv ''d1'' (Some ''repay'') (Num (num 30)) None
                 Undefined (Some ''debt'') (Some ''a1'') exampleStore = (Response 201 bdy, s')
      \<and> map_option d_type (debtOf exampleStore 11) = Some ''positive''
      \<and> map_option d_totalAmount (debtOf s' 11) = Some (num 80)
      \<and> map_option d_pendingAmount (debtOf s' 11) = Some (num 80)
      \<and> balanceOf exampleStore 1 = Some (num 100) \<and> balanceOf s' 1 = Some b
      \<and> represents b 130)
   \<and> (\<exists>bdy s' b. post_debtTransaction exampleEnv ''d2'' (Some ''repay'') (Num (num 30)) None
                 Undefined (Some ''debt'') (Some ''a1'') exampleStore = (Response 201 bdy, s')
      \<and> map_option d_type (debtOf exampleStore 12) = Some ''negative''
      \<and> map_option d_totalAmount (debtOf s' 12) = Some (num 80)
      \<and> map_option d_pendingAmount (debtOf s' 12) = Some (num 80)
      \<and> balanceOf exampleStore 2 = Some (num 0) \<and> balanceOf s' 2 = Some b
      \<and> represents b (- 30))"
proof -
  have c: "castObjectId exampleEnv ''d1'' = Some 11" "castObjectId exampleEnv ''d2'' = Some 12"
      "castObjectId exampleEnv ''a1'' = Some 1" "castObjectId exampleEnv ''a2'' = Some 2"
    by (simp_all add: exampleEnv_def)
  have d: "debtOf exampleStore 11 = Some (exampleDebt ''positive'')"
      "debtOf exampleStore 12 = Some (exampleDebt ''negative'')"
    by (simp_all add: debtOf_def exampleStore_def)
  have f: "d_type (exampleDebt ty) = ty" "d_debtor (exampleDebt ty) = Some ''a1''"
      "d_creditor (exampleDebt ty) = Some ''a2''" "d_totalAmount (exampleDebt ty) = num 50"
      "d_pendingAmount (exampleDebt ty) = num 50" for ty
    by (simp_all add: exampleDebt_def)
  have b: "balanceOf exampleStore 1 = Some (num 100)" "balanceOf exampleStore 2 = Some (num 0)"
    by (simp_all add: balanceOf_def exampleStore_def)
  have n: "num_add (num 50) (num 30) = num 80"
    by (simp add: num_add_num)
  have rep: "represents (num 100) 100" "represents (num 0) 0" "represents (num 30) 30"
      "\<bar>100 + 30 :: int\<bar> \<le> 2 ^ 53" "\<bar>0 - 30 :: int\<bar> \<le> 2 ^ 53"
    by (simp_all add: represents_num)
  obtain r1 s1 where run1: "post_debtTransaction exampleEnv ''d1'' (Some ''repay'')
      (Num (num 30)) None Undefined (Some ''debt'') (Some ''a1'') exampleStore = (r1, s1)"
    by (cases "post_debtTransaction exampleEnv ''d1'' (Some ''repay'') (Num (num 30)) None
                 Undefined (Some ''debt'') (Some ''a1'') exampleStore")
  with example_debtTransaction_status [of "''d1''"] obtain bdy1 where r1: "r1 = Response 201 bdy1"
    by (cases r1) auto
  obtain r2 s2 where run2: "post_debtTransaction exampleEnv ''d2'' (Some ''repay'')
      (Num (num 30)) None Undefined (Some ''debt'') (Some ''a1'') exampleStore = (r2, s2)"
    by (cases "post_debtTransaction exampleEnv ''d2'' (Some ''repay'') (Num (num 30)) None
                 Undefined (Some ''debt'') (Some ''a1'') exampleStore")
  with example_debtTransaction_status [of "''d2''"] obtain bdy2 where r2: "r2 = Response 201 bdy2"
    by (cases r2) auto
  note t1 = debtTransaction_effect [OF run1 [unfolded r1] c(1) d(1) refl]
  note t2 = debtTransaction_effect [OF run2 [unfolded r2] c(2) d(2) refl]
  from t1 rep have e1: "represents (num_add (num 100) (num 30)) (100 + 30)" by blast
  from t2 rep have e2: "represents (num_sub (num 0) (num 30)) (0 - 30)" by blast
  from t1 c b f d n e1 run1 r1
  have one: "\<exists>bdy s' b. post_debtTransaction exampleEnv ''d1'' (Some ''repay'') (Num (num 30))
                 None Undefined (Some ''debt'') (Some ''a1'') exampleStore = (Response 201 bdy, s')
      \<and> map_option d_type (debtOf exampleStore 11) = Some ''positive''
      \<and> map_option d_totalAmount (debtOf s' 11) = Some (num 80)
      \<and> map_option d_pendingAmount (debtOf s' 11) = Some (num 80)
      \<and> balanceOf exampleStore 1 = Some (num 100) \<and> balanceOf s' 1 = Some b
      \<and> represents b 130"
    by auto
  from t2 c b f d n e2 run2 r2
  have two: "\<exists>bdy s' b. post_debtTransaction exampleEnv ''d2'' (Some ''repay'') (Num (num 30))
                 None Undefined (Some ''debt'') (Some ''a1'') exampleStore = (Response 201 bdy, s')
      \<and> map_option d_type (debtOf exampleStore 12) = Some ''negative''
      \<and> map_option d_totalAmount (debtOf s' 12) = Some (num 80)
      \<and> map_option d_pendingAmount (debtOf s' 12) = Some (num 80)
      \<and> balanceOf exampleStore 2 = Some (num 0) \<and> balanceOf s' 2 = Some b
      \<and> represents b (- 30)"
    by auto
  from one two show ?thesis by blast
qed

text \<open>
  C3, as amended. For every valid expense posting with a numeric amount, the source
  account's balance after commit is its balance before minus amount, computed as JavaScript
  computes it: the double nearest to the difference, which is the exact difference whenever
  balance, amount and difference are integers of magnitude at most \<open>2\<^sup>5\<^sup>3\<close>. For every valid
  income posting the destination account's balance after commit is its balance before plus
  amount, in the same arithmetic. In each case exactly one new Transaction record exists
  whose type, amount, description and account reference match the request. A posting is
  valid when description and account reference are non-empty strings, amount is a number
  other than 0, the date is absent or casts, the reference casts to the id of a stored
  account, and the new balance is a number. No other account and no debt changes.
\<close>

theorem expense_income_posting:
  assumes "description = Some desc" and "desc \<noteq> []"
    and "amount = Num a" and "a \<noteq> num 0" and "a \<noteq> NaN"
    and "dateField e (Some (dateNow e)) date = Inr dt"
    and "account = Some ref" and "ref \<noteq> []"
    and "castObjectId e ref = Some i" and "balanceOf s i = Some b"
  shows
    "(num_sub b a \<noteq> NaN \<longrightarrow>
       (\<exists>t s'. post_expense e description amount category date account s
                = (Response 200 (TransactionBody ''Expense added successfully'' t), s')
        \<and> transactions s' = transactions s @ [t]
        \<and> t_type t = ''expense'' \<and> t_amount t = a \<and> t_description t = desc
        \<and> t_category t = category \<and> t_date t = dt
        \<and> t_sourceAccount t = Some i \<and> t_destinationAccount t = None \<and> t_debt t = None
        \<and> balanceOf s' i = Some (num_sub b a)
        \<and> (\<forall>k. k \<noteq> i \<longrightarrow> balanceOf s' k = balanceOf s k)
        \<and> debts s' = debts s))
     \<and> (num_add b a \<noteq> NaN \<longrightarrow>
       (\<exists>t s'. post_income e description amount category date account s
                = (Response 200 (TransactionBody ''Income added successfully'' t), s')
        \<and> transactions s' = transactions s @ [t]
        \<and> t_type t = ''income'' \<and> t_amount t = a \<and> t_description t = desc
        \<and> t_category t = category \<and> t_date t = dt
        \<and> t_sourceAccount t = None \<and> t_destinationAccount t = Some i \<and> t_debt t = None
        \<and> balanceOf s' i = Some (num_add b a)
        \<and> (\<forall>k. k \<noteq> i \<longrightarrow> balanceOf s' k = balanceOf s k)
        \<and> debts s' = debts s))
     \<and> (\<forall>x y. represents b x \<and> represents a y \<longrightarrow>
           (\<bar>x - y\<bar> \<le> 2 ^ 53 \<longrightarrow> represents (num_sub b a) (x - y))
         \<and> (\<bar>x + y\<bar> \<le> 2 ^ 53 \<longrightarrow> represents (num_add b a) (x + y)))"
proof (intro conjI impI allI)
  from assms obtain acc where acc: "map_of (bankAccounts s) i = Some acc" "balance acc = b"
    by (auto simp: balanceOf_def)
  have nt: "castRef e account = Inr (Some i)" "castRef e None = Inr None"
    using assms by (simp_all add: castRef_def)
  have guard: "truthy_str description" "truthy amount" "truthy_str account"
    using assms by (simp_all add: truthy_str_def)
  have amt: "requiredNumber e amount = Inr a"
    using assms by (simp add: requiredNumber_Num)
  have fb: "findById e (bankAccounts s) account = Inr (Some (i, acc))"
    using assms acc by (simp add: findById_Some)
  {
    assume ok: "num_sub b a \<noteq> NaN"
    have "post_expense e description amount category date account s
          = (Response 200 (TransactionBody ''Expense added successfully''
               \<lparr> t_description = desc, t_amount = a, t_category = category,
                 t_date = dt, t_type = ''expense'',
                 t_sourceAccount = Some i, t_destinationAccount = None, t_debt = None \<rparr>),
             s\<lparr>transactions := transactions s @ [\<lparr> t_description = desc, t_amount = a,
                 t_category = category, t_date = dt, t_type = ''expense'',
                 t_sourceAccount = Some i, t_destinationAccount = None, t_debt = None \<rparr>],
               bankAccounts := updateById i (acc\<lparr>balance := num_sub b a\<rparr>) (bankAccounts s)\<rparr>)"
      using guard nt fb amt ok assms(1,2,3,6) acc
      by (simp add: post_expense_def inSession_def expense_unit_def newTransaction_def
            transactionTypes_def saveBalance_def js_sub_def requiredNumber_Num Let_def)
    with acc show "\<exists>t s'. post_expense e description amount category date account s
                = (Response 200 (TransactionBody ''Expense added successfully'' t), s')
        \<and> transactions s' = transactions s @ [t]
        \<and> t_type t = ''expense'' \<and> t_amount t = a \<and> t_description t = desc
        \<and> t_category t = category \<and> t_date t = dt
        \<and> t_sourceAccount t = Some i \<and> t_destinationAccount t = None \<and> t_debt t = None
        \<and> balanceOf s' i = Some (num_sub b a)
        \<and> (\<forall>k. k \<noteq> i \<longrightarrow> balanceOf s' k = balanceOf s k)
        \<and> debts s' = debts s"
      by (simp add: balanceOf_def map_of_updateById)
  }
  {
    assume ok: "num_add b a \<noteq> NaN"
    have "post_income e description amount category date account s
          = (Response 200 (TransactionBody ''Income added successfully''
               \<lparr> t_description = desc, t_amount = a, t_category = category,
                 t_date = dt, t_type = ''income'',
                 t_sourceAccount = None, t_destinationAccount = Some i, t_debt = None \<rparr>),
             s\<lparr>transactions := transactions s @ [\<lparr> t_description = desc, t_amount = a,
                 t_category = category, t_date = dt, t_type = ''income'',
                 t_sourceAccount = None, t_destinationAccount = Some i, t_debt = None \<rparr>],
               bankAccounts := updateById i (acc\<lparr>balance := num_add b a\<rparr>) (bankAccounts s)\<rparr>)"
      using guard nt fb amt ok assms(1,2,3,6) acc
      by (simp add: post_income_def inSession_def income_unit_def newTransaction_def
            transactionTypes_def saveBalance_def requiredNumber_Num Let_def)
    with acc show "\<exists>t s'. post_income e description amount category date account s
                = (Response 200 (TransactionBody ''Income added successfully'' t), s')
        \<and> transactions s' = transactions s @ [t]
        \<and> t_type t = ''income'' \<and> t_amount t = a \<and> t_description t = desc
        \<and> t_category t = category \<and> t_date t = dt
        \<and> t_sourceAccount t = None \<and> t_destinationAccount t = Some i \<and> t_debt t = None
        \<and> balanceOf s' i = Some (num_add b a)
        \<and> (\<forall>k. k \<noteq> i \<longrightarrow> balanceOf s' k = balanceOf s k)
        \<and> debts s' = debts s"
      by (simp add: balanceOf_def map_of_updateById)
  }
  {
    fix x y
    assume r: "represents b x \<and> represents a y"
    {
      assume "\<bar>x - y\<bar> \<le> 2 ^ 53"
      with r show "represents (num_sub b a) (x - y)" by (simp add: num_sub_exact)
    }
    {
      assume "\<bar>x + y\<bar> \<le> 2 ^ 53"
      with r show "represents (num_add b a) (x + y)" by (simp add: num_add_exact)
    }
  }
qed


text \<open>
  The claim as stated, with the exact sum, fails: an income of 1 on a balance of \<open>2\<^sup>5\<^sup>3\<close> is
  answered with 200 and stored with amount 1, and the balance after commit is still
  \<open>2\<^sup>5\<^sup>3\<close>, not \<open>2\<^sup>5\<^sup>3 + 1\<close>.
\<close>

theorem expense_income_exact_counterexample:
  "status (fst (post_income exampleEnv (Some ''pay'') (Num (num 1)) None Undefined (Some ''a1'')
                  edgeStore)) = 200
   \<and> map t_amount (transactions (snd (post_income exampleEnv (Some ''pay'') (Num (num 1))
                  None Undefined (Some ''a1'') edgeStore))) = [num 1]
   \<and> represents (num 1) 1
   \<and> balanceOf edgeStore 1 = Some (num (2 ^ 53))
   \<and> represents (num (2 ^ 53)) (2 ^ 53)
   \<and> balanceOf (snd (post_income exampleEnv (Some ''pay'') (Num (num 1)) None Undefined
                  (Some ''a1'') edgeStore)) 1 = Some (num (2 ^ 53))
   \<and> \<not> represents (num (2 ^ 53)) (2 ^ 53 + 1)"
proof -
  have sum: "num_add (num (2 ^ 53)) (num 1) = num (2 ^ 53)"
    using num_add_num [of "2 ^ 53" 1] num_2_53_plus_1 by simp
  have r: "represents (num 1) 1" "represents (num (2 ^ 53)) (2 ^ 53)"
    by (simp_all add: represents_num)
  from r(2) scale_pos have nr: "\<not> represents (num (2 ^ 53)) (2 ^ 53 + 1)"
    by (simp add: represents_def)
  have run: "post_income exampleEnv (Some ''pay'') (Num (num 1)) None Undefined (Some ''a1'')
                  edgeStore
      = (Response 200 (TransactionBody ''Income added successfully''
           \<lparr> t_description = ''pay'', t_amount = num 1, t_category = None,
             t_date = Some 1000, t_type = ''income'',
             t_sourceAccount = None, t_destinationAccount = Some 1, t_debt = None \<rparr>),
         edgeStore\<lparr>transactions := [\<lparr> t_description = ''pay'', t_amount = num 1,
             t_category = None, t_date = Some 1000, t_type = ''income'',
             t_sourceAccount = None, t_destinationAccount = Some 1, t_debt = None \<rparr>],
           bankAccounts := [(1, \<lparr> accountNumber = ''A001'', balance = num (2 ^ 53) \<rparr>),
                            (2, \<lparr> accountNumber = ''A002'', balance = num 0 \<rparr>)]\<rparr>)"
    using sum
    by (simp add: post_income_def inSession_def income_unit_def truthy_str_def
          newTransaction_def transactionTypes_def dateField_def castRef_def findById_def
          saveBalance_def requiredNumber_Num num_inject num_not_NaN Let_def
          exampleEnv_def edgeStore_def)
  have before: "balanceOf edgeStore 1 = Some (num (2 ^ 53))"
    by (simp add: balanceOf_def edgeStore_def)
  from run r nr before show ?thesis
    by (simp add: balanceOf_def)
qed

theorem expense_income_posting_witness:
  "(\<exists>t s' b'. post_expense exampleEnv (Some ''rent'') (Num (num 40)) (Some ''home'') Undefined
                 (Some ''a1'') exampleStore
                = (Response 200 (TransactionBody ''Expense added successfully'' t), s')
        \<and> transactions s' = [t] \<and> t_type t = ''expense'' \<and> t_amount t = num 40
        \<and> t_description t = ''rent'' \<and> t_sourceAccount t = Some 1
        \<and> balanceOf s' 1 = Some b' \<and> represents b' 60 \<and> balanceOf s' 2 = Some (num 0))
   \<and> (\<exists>t s' b'. post_income exampleEnv (Some ''rent'') (Num (num 40)) (Some ''home'') Undefined
                 (Some ''a1'') exampleStore
                = (Response 200 (TransactionBody ''Income added successfully'' t), s')
        \<and> transactions s' = [t] \<and> t_type t = ''income'' \<and> t_amount t = num 40
        \<and> t_description t = ''rent'' \<and> t_destinationAccount t = Some 1
        \<and> balanceOf s' 1 = Some b' \<and> represents b' 140 \<and> balanceOf s' 2 = Some (num 0))"
proof -
  have c: "castObjectId exampleEnv ''a1'' = Some 1"
    by (simp add: exampleEnv_def)
  have d: "dateField exampleEnv (Some (dateNow exampleEnv)) Undefined = Inr (Some 1000)"
    by (simp add: dateField_def exampleEnv_def)
  have b: "balanceOf exampleStore 1 = Some (num 100)" "balanceOf exampleStore 2 = Some (num 0)"
      "transactions exampleStore = []"
    by (simp_all add: balanceOf_def exampleStore_def)
  have ne: "''rent'' \<noteq> []" "num 40 \<noteq> num 0" "num 40 \<noteq> NaN" "''a1'' \<noteq> []" "(2::nat) \<noteq> 1"
    by (simp_all add: num_inject num_not_NaN)
  have r: "represents (num 100) 100" "represents (num 40) 40"
      "\<bar>100 - 40 :: int\<bar> \<le> 2 ^ 53" "\<bar>100 + 40 :: int\<bar> \<le> 2 ^ 53"
    by (simp_all add: represents_num)
  have ok: "num_sub (num 100) (num 40) \<noteq> NaN" "num_add (num 100) (num 40) \<noteq> NaN"
    by (simp_all add: num_sub_num num_add_num num_not_NaN)
  note inst = expense_income_posting [OF refl ne(1) refl ne(2) ne(3) d refl ne(4) c b(1),
      where category = "Some ''home''"]
  from inst ok r have ex: "represents (num_sub (num 100) (num 40)) 60"
      "represents (num_add (num 100) (num 40)) 140"
    by fastforce+
  from inst ok(1) b(2,3) ne(5) ex(1) have one:
    "\<exists>t s' b'. post_expense exampleEnv (Some ''rent'') (Num (num 40)) (Some ''home'') Undefined
                 (Some ''a1'') exampleStore
                = (Response 200 (TransactionBody ''Expense added successfully'' t), s')
        \<and> transactions s' = [t] \<and> t_type t = ''expense'' \<and> t_amount t = num 40
        \<and> t_description t = ''rent'' \<and> t_sourceAccount t = Some 1
        \<and> balanceOf s' 1 = Some b' \<and> represents b' 60 \<and> balanceOf s' 2 = Some (num 0)"
    by auto
  from inst ok(2) b(2,3) ne(5) ex(2) have two:
    "\<exists>t s' b'. post_income exampleEnv (Some ''rent'') (Num (num 40)) (Some ''home'') Undefined
                 (Some ''a1'') exampleStore
                = (Response 200 (TransactionBody ''Income added successfully'' t), s')
        \<and> transactions s' = [t] \<and> t_type t = ''income'' \<and> t_amount t = num 40
        \<and> t_description t = ''rent'' \<and> t_destinationAccount t = Some 1
        \<and> balanceOf s' 1 = Some b' \<and> represents b' 140 \<and> balanceOf s' 2 = Some (num 0)"
    by auto
  from one two show ?thesis by blast
qed

text \<open>
  C4, as amended. For every successful self-transfer with a numeric amount between two
  existing accounts, exactly one new Transaction record exists referencing both accounts,
  the source's balance after commit is its balance before minus amount and the
  destination's is its balance before plus amount, each computed as JavaScript computes it:
  the double nearest to the result. Whenever balances, amount and results are integers of
  magnitude at most \<open>2\<^sup>5\<^sup>3\<close> the results are exact, so that the sum of the two balances after
  commit equals their sum before. When both references name the same account, its balance
  is first lowered and then raised by amount. No other account and no debt changes.
\<close>

theorem selfTransfer_conserves:
  assumes "post_selfTransfer e amount sourceAccount destinationAccount description s
             = (Response 200 bdy, s')"
    and "sourceAccount = Some src" and "destinationAccount = Some dst"
    and "castObjectId e src = Some i" and "castObjectId e dst = Some j"
    and "balanceOf s i = Some bi" and "balanceOf s j = Some bj"
    and "amount = Num a"
  shows "\<exists>bi' bj' t.
           balanceOf s' i = Some bi' \<and> balanceOf s' j = Some bj'
         \<and> (i \<noteq> j \<longrightarrow> bi' = num_sub bi a \<and> bj' = num_add bj a)
         \<and> (i = j \<longrightarrow> bi' = num_add (num_sub bi a) a)
         \<and> (\<forall>x y z. i \<noteq> j \<and> represents bi x \<and> represents bj y \<and> represents a z
               \<and> \<bar>x - z\<bar> \<le> 2 ^ 53 \<and> \<bar>y + z\<bar> \<le> 2 ^ 53 \<longrightarrow>
               represents bi' (x - z) \<and> represents bj' (y + z)
               \<and> (x - z) + (y + z) = x + y)
         \<and> (\<forall>x z. i = j \<and> represents bi x \<and> represents a z
               \<and> \<bar>x - z\<bar> \<le> 2 ^ 53 \<and> \<bar>x\<bar> \<le> 2 ^ 53 \<longrightarrow> represents bi' x)
         \<and> (\<forall>k. k \<noteq> i \<and> k \<noteq> j \<longrightarrow> balanceOf s' k = balanceOf s k)
         \<and> bdy = TransactionBody ''Self-transfer completed successfully'' t
         \<and> transactions s' = transactions s @ [t]
         \<and> t_type t = ''self-transfer'' \<and> t_amount t = a
         \<and> t_sourceAccount t = Some i \<and> t_destinationAccount t = Some j
         \<and> debts s' = debts s"
proof -
  from assms(1) obtain t where
    unit: "selfTransfer_unit e amount sourceAccount destinationAccount description s = Inr (t, s')"
    and bdy: "bdy = TransactionBody ''Self-transfer completed successfully'' t"
    unfolding post_selfTransfer_def by (auto dest!: inSession_ok)
  from selfTransfer_unit_Inr [OF unit] assms(2-5) obtain desc amt accI accJ bi' bj' where
    amt: "requiredNumber e amount = Inr amt"
    and accI: "map_of (bankAccounts s) i = Some accI"
    and si: "requiredNumber e (js_sub e (balance accI) amount) = Inr bi'"
    and accJ: "map_of (updateById i (accI\<lparr>balance := bi'\<rparr>) (bankAccounts s)) j = Some accJ"
    and sj: "requiredNumber e (js_add e (balance accJ) amount) = Inr bj'"
    and t: "t = \<lparr> t_description = desc, t_amount = amt, t_category = None,
               t_date = Some (dateNow e), t_type = ''self-transfer'',
               t_sourceAccount = Some i, t_destinationAccount = Some j, t_debt = None \<rparr>"
    and s': "s' = s\<lparr>transactions := transactions s @ [t],
               bankAccounts := updateById j (accJ\<lparr>balance := bj'\<rparr>)
                   (updateById i (accI\<lparr>balance := bi'\<rparr>) (bankAccounts s))\<rparr>"
    by auto
  from amt assms(8) have amt': "amt = a"
    by (auto simp: requiredNumber_Num split: if_splits)
  from accI assms(6) have bi: "balance accI = bi" by (simp add: balanceOf_def)
  from si assms(8) bi have bi': "bi' = num_sub bi a"
    by (auto simp: js_sub_def requiredNumber_Num split: if_splits)
  from sj assms(8) have bj': "bj' = num_add (balance accJ) a"
    by (auto simp: requiredNumber_Num split: if_splits)
  show ?thesis
  proof (cases "i = j")
    case True
    with accI accJ have "accJ = accI\<lparr>balance := bi'\<rparr>"
      by (simp add: map_of_updateById)
    with bj' bi' have bj'': "bj' = num_add (num_sub bi a) a" by simp
    have "represents bj' x"
      if "represents bi x" "represents a z" "\<bar>x - z\<bar> \<le> 2 ^ 53" "\<bar>x\<bar> \<le> 2 ^ 53" for x z
    proof -
      from that have "represents (num_sub bi a) (x - z)" by (simp add: num_sub_exact)
      from num_add_exact [OF this that(2)] that(4) show ?thesis by (simp add: bj'')
    qed
    with True accI bdy t s' amt' bj'' show ?thesis
      by (auto simp: balanceOf_def map_of_updateById)
  next
    case False
    with accJ have j: "map_of (bankAccounts s) j = Some accJ"
      by (simp add: map_of_updateById)
    with assms(7) have "balance accJ = bj" by (simp add: balanceOf_def)
    with bj' have bj'': "bj' = num_add bj a" by simp
    have "represents bi' (x - z) \<and> represents bj' (y + z)"
      if "represents bi x" "represents bj y" "represents a z"
        "\<bar>x - z\<bar> \<le> 2 ^ 53" "\<bar>y + z\<bar> \<le> 2 ^ 53" for x y z
      using that by (simp add: bi' bj'' num_sub_exact num_add_exact)
    with False accI j bdy t s' amt' bi' bj'' show ?thesis
      by (auto simp: balanceOf_def map_of_updateById)
  qed
qed

text \<open>
  The claim as stated fails in two ways. A transfer of 1 from a balance of 0 to a balance
  of \<open>2\<^sup>5\<^sup>3\<close> is answered with 200 and leaves \<open>-1\<close> and \<open>2\<^sup>5\<^sup>3\<close>: the sum is not kept. A transfer
  whose amount is the string \<^verbatim>\<open>"20"\<close>, from a balance of 0 to a balance of 100, is answered
  with 200 and leaves \<open>-20\<close> and 10020: the destination's \<^verbatim>\<open>+=\<close> concatenates.
\<close>

theorem selfTransfer_sum_counterexample:
  "status (fst (post_selfTransfer exampleEnv (Num (num 1)) (Some ''a2'') (Some ''a1'')
                  (Some ''move'') edgeStore)) = 200
   \<and> balanceOf edgeStore 2 = Some (num 0)
   \<and> balanceOf edgeStore 1 = Some (num (2 ^ 53))
   \<and> balanceOf (snd (post_selfTransfer exampleEnv (Num (num 1)) (Some ''a2'') (Some ''a1'')
                  (Some ''move'') edgeStore)) 2 = Some (num (- 1))
   \<and> balanceOf (snd (post_selfTransfer exampleEnv (Num (num 1)) (Some ''a2'') (Some ''a1'')
                  (Some ''move'') edgeStore)) 1 = Some (num (2 ^ 53))
   \<and> status (fst (post_selfTransfer exampleEnv (Str ''20'') (Some ''a2'') (Some ''a1'')
                  (Some ''move'') exampleStore)) = 200
   \<and> balanceOf exampleStore 2 = Some (num 0)
   \<and> balanceOf exampleStore 1 = Some (num 100)
   \<and> balanceOf (snd (post_selfTransfer exampleEnv (Str ''20'') (Some ''a2'') (Some ''a1'')
                  (Some ''move'') exampleStore)) 2 = Some (num (- 20))
   \<and> balanceOf (snd (post_selfTransfer exampleEnv (Str ''20'') (Some ''a2'') (Some ''a1'')
                  (Some ''move'') exampleStore)) 1 = Some (num 10020)"
proof -
  have sum: "num_add (num (2 ^ 53)) (num 1) = num (2 ^ 53)"
    using num_add_num [of "2 ^ 53" 1] num_2_53_plus_1 by simp
  have run1: "post_selfTransfer exampleEnv (Num (num 1)) (Some ''a2'') (Some ''a1'')
                  (Some ''move'') edgeStore
      = (Response 200 (TransactionBody ''Self-transfer completed successfully''
           \<lparr> t_description = ''move'', t_amount = num 1, t_category = None,
             t_date = Some 1000, t_type = ''self-transfer'',
             t_sourceAccount = Some 2, t_destinationAccount = Some 1, t_debt = None \<rparr>),
         edgeStore\<lparr>transactions := [\<lparr> t_description = ''move'', t_amount = num 1,
             t_category = None, t_date = Some 1000, t_type = ''self-transfer'',
             t_sourceAccount = Some 2, t_destinationAccount = Some 1, t_debt = None \<rparr>],
           bankAccounts := [(1, \<lparr> accountNumber = ''A001'', balance = num (2 ^ 53) \<rparr>),
                            (2, \<lparr> accountNumber = ''A002'', balance = num (- 1) \<rparr>)]\<rparr>)"
    using sum
    by (simp add: post_selfTransfer_def inSession_def selfTransfer_unit_def truthy_str_def
          newTransaction_def transactionTypes_def dateField_def castRef_def findById_def
          saveBalance_def requiredNumber_Num js_sub_def num_sub_num num_inject num_not_NaN
          Let_def exampleEnv_def edgeStore_def)
  have run2: "post_selfTransfer exampleEnv (Str ''20'') (Some ''a2'') (Some ''a1'')
                  (Some ''move'') exampleStore
      = (Response 200 (TransactionBody ''Self-transfer completed successfully''
           \<lparr> t_description = ''move'', t_amount = num 20, t_category = None,
             t_date = Some 1000, t_type = ''self-transfer'',
             t_sourceAccount = Some 2, t_destinationAccount = Some 1, t_debt = None \<rparr>),
         exampleStore\<lparr>transactions := [\<lparr> t_description = ''move'', t_amount = num 20,
             t_category = None, t_date = Some 1000, t_type = ''self-transfer'',
             t_sourceAccount = Some 2, t_destinationAccount = Some 1, t_debt = None \<rparr>],
           bankAccounts := [(1, \<lparr> accountNumber = ''A001'', balance = num 10020 \<rparr>),
                            (2, \<lparr> accountNumber = ''A002'', balance = num (- 20) \<rparr>)]\<rparr>)"
    by (simp add: post_selfTransfer_def inSession_def selfTransfer_unit_def truthy_str_def
          newTransaction_def transactionTypes_def dateField_def castRef_def findById_def
          saveBalance_def requiredNumber_Num requiredNumber_Str js_sub_def num_sub_num
          num_inject num_not_NaN Let_def exampleEnv_def exampleStore_def)
  have before: "balanceOf edgeStore 2 = Some (num 0)" "balanceOf edgeStore 1 = Some (num (2 ^ 53))"
      "balanceOf exampleStore 2 = Some (num 0)" "balanceOf exampleStore 1 = Some (num 100)"
    by (simp_all add: balanceOf_def edgeStore_def exampleStore_def)
  from run1 run2 before show ?thesis
    by (simp add: balanceOf_def)
qed

theorem selfTransfer_conserves_witness:
  "\<exists>bdy s' b1 b2. post_selfTransfer exampleEnv (Num (num 20)) (Some ''a1'') (Some ''a2'')
                    (Some ''move'') exampleStore = (Response 200 bdy, s')
     \<and> balanceOf exampleStore 1 = Some (num 100) \<and> balanceOf exampleStore 2 = Some (num 0)
     \<and> balanceOf s' 1 = Some b1 \<and> balanceOf s' 2 = Some b2
     \<and> represents b1 80 \<and> represents b2 20
     \<and> length (transactions s') = 1"
proof -
  obtain r s' where run:
    "post_selfTransfer exampleEnv (Num (num 20)) (Some ''a1'') (Some ''a2'') (Some ''move'')
       exampleStore = (r, s')"
    by (cases "post_selfTransfer exampleEnv (Num (num 20)) (Some ''a1'') (Some ''a2'')
       (Some ''move'') exampleStore")
  have "status r = 200"
    using run
    by (auto simp add: post_selfTransfer_def inSession_def selfTransfer_unit_def truthy_str_def
          newTransaction_def transactionTypes_def dateField_def castRef_def findById_def
          saveBalance_def requiredNumber_Num js_sub_def num_sub_num num_add_num
          num_inject num_not_NaN Let_def exampleEnv_def exampleStore_def)
  then obtain bdy where r: "r = Response 200 bdy" by (cases r) auto
  have c: "castObjectId exampleEnv ''a1'' = Some 1" "castObjectId exampleEnv ''a2'' = Some 2"
    by (simp_all add: exampleEnv_def)
  have b: "balanceOf exampleStore 1 = Some (num 100)" "balanceOf exampleStore 2 = Some (num 0)"
      "transactions exampleStore = []"
    by (simp_all add: balanceOf_def exampleStore_def)
  have rep: "represents (num 100) 100" "represents (num 0) 0" "represents (num 20) 20"
      "\<bar>100 - 20 :: int\<bar> \<le> 2 ^ 53" "\<bar>0 + 20 :: int\<bar> \<le> 2 ^ 53" "(1::nat) \<noteq> 2"
    by (simp_all add: represents_num)
  from selfTransfer_conserves [OF run [unfolded r] refl refl c b(1,2) refl]
  obtain bi' bj' t where
    res: "balanceOf s' 1 = Some bi'" "balanceOf s' 2 = Some bj'"
      "\<forall>x y z. 1 \<noteq> (2::nat) \<and> represents (num 100) x \<and> represents (num 0) y
          \<and> represents (num 20) z \<and> \<bar>x - z\<bar> \<le> 2 ^ 53 \<and> \<bar>y + z\<bar> \<le> 2 ^ 53 \<longrightarrow>
          represents bi' (x - z) \<and> represents bj' (y + z) \<and> (x - z) + (y + z) = x + y"
      "transactions s' = transactions exampleStore @ [t]"
    by blast
  from res(3) rep have "represents bi' (100 - 20) \<and> represents bj' (0 + 20)" by blast
  with res(1,2,4) b r run show ?thesis by auto
qed

lemma stored_amount:
  assumes "truthy x" and "requiredNumber e x = Inr n"
  shows "(x = Num n \<and> n \<noteq> num 0 \<and> n \<noteq> NaN)
       \<or> (\<exists>v. x = Str v \<and> v \<noteq> [] \<and> n = stringToNumber e v \<and> n \<noteq> NaN)"
  using assms by (cases x) (auto simp: requiredNumber_def split: if_splits)

lemma minus_stored:
  "requiredNumber e (js_sub e b (Num a)) = Inr b' \<Longrightarrow> b' = num_sub b a"
  by (simp add: js_sub_def requiredNumber_Num split: if_splits)

lemma plus_stored:
  "requiredNumber e (js_add e b (Num a)) = Inr b' \<Longrightarrow> b' = num_add b a"
  by (simp add: requiredNumber_Num split: if_splits)

text \<open>
  C5, as amended. Each request appends at most one Transaction record, and the amount of a
  record that an expense, income, self-transfer or debt-transaction request appends is the
  request's amount when that is a number, which then is neither 0 nor \<^verbatim>\<open>NaN\<close>, and is the
  number that the request's amount converts to when that is a non-empty string. The
  handlers' guard \<^verbatim>\<open>!amount\<close> rejects a missing amount, the empty string and the number 0
  only. With an amount that is a number greater than 0, and a stored balance that is a
  double, an expense never raises a balance, an income never lowers one, and a
  self-transfer between two different accounts never raises the source's balance or lowers
  the destination's.
\<close>

theorem persisted_amount_of_request:
  "(\<exists>new. transactions (snd (handle e req s)) = transactions s @ new \<and> length new \<le> 1
        \<and> (\<forall>t \<in> set new.
              (amountOf req = Num (t_amount t) \<and> t_amount t \<noteq> num 0 \<and> t_amount t \<noteq> NaN)
            \<or> (\<exists>v. amountOf req = Str v \<and> v \<noteq> [] \<and> t_amount t = stringToNumber e v
                   \<and> t_amount t \<noteq> NaN)))
   \<and> (num_less (num 0) a \<and> balanceOf s k = Some b \<and> isDouble b \<longrightarrow>
        (\<exists>b'. balanceOf (snd (post_expense e description (Num a) category date sourceAccount s)) k
                = Some b' \<and> \<not> num_less b b')
      \<and> (\<exists>b'. balanceOf (snd (post_income e description (Num a) category date
                                  destinationAccount s)) k
                = Some b' \<and> \<not> num_less b' b)
      \<and> (\<exists>b'. balanceOf (snd (post_selfTransfer e (Num a) sourceAccount destinationAccount
                                  description s)) k = Some b'
             \<and> (castRef e sourceAccount \<noteq> castRef e destinationAccount \<longrightarrow>
                  (castRef e sourceAccount = Inr (Some k) \<longrightarrow> \<not> num_less b b')
                \<and> (castRef e destinationAccount = Inr (Some k) \<longrightarrow> \<not> num_less b' b))))"
proof (intro conjI impI)
  let ?P = "\<lambda>new. length new \<le> 1
        \<and> (\<forall>t \<in> set new.
              (amountOf req = Num (t_amount t) \<and> t_amount t \<noteq> num 0 \<and> t_amount t \<noteq> NaN)
            \<or> (\<exists>v. amountOf req = Str v \<and> v \<noteq> [] \<and> t_amount t = stringToNumber e v
                   \<and> t_amount t \<noteq> NaN))"
  have none: "?P []" by simp
  have one: "?P [t]" if "truthy (amountOf req)"
      "requiredNumber e (amountOf req) = Inr (t_amount t)" for t
    using stored_amount [OF that] by auto
  have same: "transactions (snd (handle e req s)) = transactions s
      \<Longrightarrow> \<exists>new. transactions (snd (handle e req s)) = transactions s @ new \<and> ?P new"
    using none by (intro exI [of _ "[]"]) simp
  have grown: "\<exists>new. transactions (snd (handle e req s)) = transactions s @ new \<and> ?P new"
    if "transactions (snd (handle e req s)) = transactions s @ [t]" "truthy (amountOf req)"
      "requiredNumber e (amountOf req) = Inr (t_amount t)" for t
    using that(1) one [OF that(2,3)] by (intro exI [of _ "[t]"]) simp
  show "\<exists>new. transactions (snd (handle e req s)) = transactions s @ new \<and> ?P new"
  proof (cases req)
    case (PostExpense description amount category date sourceAccount)
    from post_expense_store [of e description amount category date sourceAccount s]
    consider "snd (handle e req s) = s"
      | t where "transactions (snd (handle e req s)) = transactions s @ [t]"
          "truthy amount" "requiredNumber e amount = Inr (t_amount t)"
      using PostExpense by auto
    then show ?thesis
    proof cases
      case 1
      then show ?thesis using same by simp
    next
      case 2
      with PostExpense show ?thesis using grown [of t] by simp
    qed
  next
    case (PostIncome description amount category date destinationAccount)
    from post_income_store [of e description amount category date destinationAccount s]
    consider "snd (handle e req s) = s"
      | t where "transactions (snd (handle e req s)) = transactions s @ [t]"
          "truthy amount" "requiredNumber e amount = Inr (t_amount t)"
      using PostIncome by auto
    then show ?thesis
    proof cases
      case 1
      then show ?thesis using same by simp
    next
      case 2
      with PostIncome show ?thesis using grown [of t] by simp
    qed
  next
    case (PostSelfTransfer amount sourceAccount destinationAccount description)
    from post_selfTransfer_store [of e amount sourceAccount destinationAccount description s]
    consider "snd (handle e req s) = s"
      | t where "transactions (snd (handle e req s)) = transactions s @ [t]"
          "truthy amount" "requiredNumber e amount = Inr (t_amount t)"
      using PostSelfTransfer by auto
    then show ?thesis
    proof cases
      case 1
      then show ?thesis using same by simp
    next
      case 2
      with PostSelfTransfer show ?thesis using grown [of t] by simp
    qed
  next
    case GetBankAccounts
    then show ?thesis using same by (simp add: get_store)
  next
    case (GetBankAccount accountId)
    then show ?thesis using same by (simp add: get_store)
  next
    case (PostBankAccount accountNumber')
    with post_bankAccount_store [of e accountNumber' s]
    have "transactions (snd (handle e req s)) = transactions s" by auto
    then show ?thesis by (rule same)
  next
    case (PatchUpdateBalance accountId newBalance)
    with patch_updateBalance_store [of e accountId newBalance s]
    have "transactions (snd (handle e req s)) = transactions s" by auto
    then show ?thesis by (rule same)
  next
    case (PostDebt b)
    with post_debt_store [of e b s]
    have "transactions (snd (handle e req s)) = transactions s" by auto
    then show ?thesis by (rule same)
  next
    case GetDebts
    then show ?thesis using same by (simp add: get_store)
  next
    case (GetDebt debtId)
    then show ?thesis using same by (simp add: get_store)
  next
    case (PatchUpdateStatus debtId newStatus)
    with patch_updateStatus_store [of e debtId newStatus s]
    have "transactions (snd (handle e req s)) = transactions s" by auto
    then show ?thesis by (rule same)
  next
    case (PostDebtTransaction debtId description amount category date type sourceAccount)
    from post_debtTransaction_store
           [of e debtId description amount category date type sourceAccount s]
    consider "snd (handle e req s) = s"
      | t where "transactions (snd (handle e req s)) = transactions s @ [t]"
          "truthy amount" "requiredNumber e amount = Inr (t_amount t)"
      using PostDebtTransaction by auto
    then show ?thesis
    proof cases
      case 1
      then show ?thesis using same by simp
    next
      case 2
      with PostDebtTransaction show ?thesis using grown [of t] by simp
    qed
  qed
next
  assume h: "num_less (num 0) a \<and> balanceOf s k = Some b \<and> isDouble b"
  let ?s' = "snd (post_expense e description (Num a) category date sourceAccount s)"
  consider "?s' = s"
    | t where "expense_unit e description (Num a) category date sourceAccount s = Inr (t, ?s')"
    using inSession_snd [of 200 "''Expense added successfully''"
      "expense_unit e description (Num a) category date sourceAccount s" s]
    unfolding post_expense_def by blast
  then show "\<exists>b'. balanceOf ?s' k = Some b' \<and> \<not> num_less b b'"
  proof cases
    case 1
    with h show ?thesis by (simp add: num_less_irrefl)
  next
    case 2
    from expense_unit_Inr [OF 2] obtain i acc b' where
      u: "map_of (bankAccounts s) i = Some acc"
        "requiredNumber e (js_sub e (balance acc) (Num a)) = Inr b'"
        "bankAccounts ?s' = updateById i (acc\<lparr>balance := b'\<rparr>) (bankAccounts s)"
      by auto
    from minus_stored [OF u(2)] have b': "b' = num_sub (balance acc) a" .
    show ?thesis
    proof (cases "k = i")
      case True
      with h u(1) have "balance acc = b" by (simp add: balanceOf_def)
      with True u b' h num_sub_not_less [of b a] show ?thesis
        by (auto simp: balanceOf_def map_of_updateById)
    next
      case False
      with h u show ?thesis by (auto simp: balanceOf_def map_of_updateById num_less_irrefl)
    qed
  qed
next
  assume h: "num_less (num 0) a \<and> balanceOf s k = Some b \<and> isDouble b"
  let ?s' = "snd (post_income e description (Num a) category date destinationAccount s)"
  consider "?s' = s"
    | t where "income_unit e description (Num a) category date destinationAccount s
                 = Inr (t, ?s')"
    using inSession_snd [of 200 "''Income added successfully''"
      "income_unit e description (Num a) category date destinationAccount s" s]
    unfolding post_income_def by blast
  then show "\<exists>b'. balanceOf ?s' k = Some b' \<and> \<not> num_less b' b"
  proof cases
    case 1
    with h show ?thesis by (simp add: num_less_irrefl)
  next
    case 2
    from income_unit_Inr [OF 2] obtain i acc b' where
      u: "map_of (bankAccounts s) i = Some acc"
        "requiredNumber e (js_add e (balance acc) (Num a)) = Inr b'"
        "bankAccounts ?s' = updateById i (acc\<lparr>balance := b'\<rparr>) (bankAccounts s)"
      by auto
    from plus_stored [OF u(2)] have b': "b' = num_add (balance acc) a" .
    show ?thesis
    proof (cases "k = i")
      case True
      with h u(1) have "balance acc = b" by (simp add: balanceOf_def)
      with True u b' h num_add_not_less [of b a] show ?thesis
        by (auto simp: balanceOf_def map_of_updateById)
    next
      case False
      with h u show ?thesis by (auto simp: balanceOf_def map_of_updateById num_less_irrefl)
    qed
  qed
next
  assume h: "num_less (num 0) a \<and> balanceOf s k = Some b \<and> isDouble b"
  let ?s' = "snd (post_selfTransfer e (Num a) sourceAccount destinationAccount description s)"
  let ?Q = "\<lambda>b'. castRef e sourceAccount \<noteq> castRef e destinationAccount \<longrightarrow>
                  (castRef e sourceAccount = Inr (Some k) \<longrightarrow> \<not> num_less b b')
                \<and> (castRef e destinationAccount = Inr (Some k) \<longrightarrow> \<not> num_less b' b)"
  consider "?s' = s"
    | t where "selfTransfer_unit e (Num a) sourceAccount destinationAccount description s
                 = Inr (t, ?s')"
    using inSession_snd [of 200 "''Self-transfer completed successfully''"
      "selfTransfer_unit e (Num a) sourceAccount destinationAccount description s" s]
    unfolding post_selfTransfer_def by blast
  then show "\<exists>b'. balanceOf ?s' k = Some b' \<and> ?Q b'"
  proof cases
    case 1
    with h show ?thesis by (simp add: num_less_irrefl)
  next
    case 2
    from selfTransfer_unit_Inr [OF 2] obtain src dst i j accI accJ bi' bj' where
      u: "sourceAccount = Some src" "castObjectId e src = Some i"
        "destinationAccount = Some dst" "castObjectId e dst = Some j"
        "map_of (bankAccounts s) i = Some accI"
        "requiredNumber e (js_sub e (balance accI) (Num a)) = Inr bi'"
        "map_of (updateById i (accI\<lparr>balance := bi'\<rparr>) (bankAccounts s)) j = Some accJ"
        "requiredNumber e (js_add e (balance accJ) (Num a)) = Inr bj'"
        "bankAccounts ?s' = updateById j (accJ\<lparr>balance := bj'\<rparr>)
                   (updateById i (accI\<lparr>balance := bi'\<rparr>) (bankAccounts s))"
      by auto
    have refs: "castRef e sourceAccount = Inr (Some i)"
        "castRef e destinationAccount = Inr (Some j)"
      using u(1-4) by (simp_all add: castRef_def)
    from minus_stored [OF u(6)] have bi': "bi' = num_sub (balance accI) a" .
    from plus_stored [OF u(8)] have bj': "bj' = num_add (balance accJ) a" .
    show ?thesis
    proof (cases "i = j")
      case True
      with refs have "castRef e sourceAccount = castRef e destinationAccount" by simp
      moreover from True u(5,7,9) h have "\<exists>b'. balanceOf ?s' k = Some b'"
        by (auto simp: balanceOf_def map_of_updateById)
      ultimately show ?thesis by auto
    next
      case False
      with u(7) have accJ: "map_of (bankAccounts s) j = Some accJ"
        by (simp add: map_of_updateById)
      consider "k = i" | "k = j" | "k \<noteq> i" "k \<noteq> j" by blast
      then show ?thesis
      proof cases
        case 1
        with h u(5) have "balance accI = b" by (simp add: balanceOf_def)
        with 1 False u(5,7,9) bi' refs h num_sub_not_less [of b a] show ?thesis
          by (auto simp: balanceOf_def map_of_updateById)
      next
        case 2
        with h accJ have "balance accJ = b" by (simp add: balanceOf_def)
        with 2 False u(5,7,9) bj' refs h num_add_not_less [of b a] show ?thesis
          by (auto simp: balanceOf_def map_of_updateById)
      next
        case 3
        with h u(5,7,9) refs show ?thesis
          by (auto simp: balanceOf_def map_of_updateById num_less_irrefl)
      qed
    qed
  qed
qed


text \<open>
  The claim as stated fails in each of its parts. An expense of \<open>-5\<close> is answered with 200,
  stored with amount \<open>-5\<close> and type expense, and raises the source account's balance from
  100 to 105. An expense whose amount is the string \<^verbatim>\<open>"0"\<close> passes the guard \<^verbatim>\<open>!amount\<close>, is
  answered with 200 and stored with amount 0. A debt transaction of type expense with the
  positive amount 30 against a positive debt is answered with 201 and raises the balance of
  its own source account from 100 to 130.
\<close>

theorem persisted_amount_positive_counterexample:
  "status (fst (post_expense exampleEnv (Some ''refund'') (Num (num (- 5))) None Undefined
                  (Some ''a1'') exampleStore)) = 200
   \<and> map t_amount (transactions (snd (post_expense exampleEnv (Some ''refund'')
                  (Num (num (- 5))) None Undefined (Some ''a1'') exampleStore))) = [num (- 5)]
   \<and> map t_type (transactions (snd (post_expense exampleEnv (Some ''refund'')
                  (Num (num (- 5))) None Undefined (Some ''a1'') exampleStore))) = [''expense'']
   \<and> num_less (num (- 5)) (num 0)
   \<and> balanceOf exampleStore 1 = Some (num 100)
   \<and> balanceOf (snd (post_expense exampleEnv (Some ''refund'') (Num (num (- 5))) None Undefined
                  (Some ''a1'') exampleStore)) 1 = Some (num 105)
   \<and> num_less (num 100) (num 105)
   \<and> status (fst (post_expense exampleEnv (Some ''nothing'') (Str ''0'') None Undefined
                  (Some ''a1'') exampleStore)) = 200
   \<and> map t_amount (transactions (snd (post_expense exampleEnv (Some ''nothing'') (Str ''0'')
                  None Undefined (Some ''a1'') exampleStore))) = [num 0]
   \<and> status (fst (post_debtTransaction exampleEnv ''d1'' (Some ''lend'') (Num (num 30)) None
                  Undefined (Some ''expense'') (Some ''a1'') exampleStore)) = 201
   \<and> map t_type (transactions (snd (post_debtTransaction exampleEnv ''d1'' (Some ''lend'')
                  (Num (num 30)) None Undefined (Some ''expense'') (Some ''a1'') exampleStore)))
       = [''expense'']
   \<and> map t_sourceAccount (transactions (snd (post_debtTransaction exampleEnv ''d1''
                  (Some ''lend'') (Num (num 30)) None Undefined (Some ''expense'') (Some ''a1'')
                  exampleStore))) = [Some 1]
   \<and> map t_amount (transactions (snd (post_debtTransaction exampleEnv ''d1''
                  (Some ''lend'') (Num (num 30)) None Undefined (Some ''expense'') (Some ''a1'')
                  exampleStore))) = [num 30]
   \<and> num_less (num 0) (num 30)
   \<and> balanceOf (snd (post_debtTransaction exampleEnv ''d1'' (Some ''lend'') (Num (num 30)) None
                  Undefined (Some ''expense'') (Some ''a1'') exampleStore)) 1 = Some (num 130)
   \<and> num_less (num 100) (num 130)"
proof -
  have less: "num_less (num (- 5)) (num 0)" "num_less (num 100) (num 105)"
      "num_less (num 0) (num 30)" "num_less (num 100) (num 130)"
    using scale_pos by (simp_all add: num_exact)
  have neg: "status (fst (post_expense exampleEnv (Some ''refund'') (Num (num (- 5))) None
                  Undefined (Some ''a1'') exampleStore)) = 200"
      "map t_amount (transactions (snd (post_expense exampleEnv (Some ''refund'')
                  (Num (num (- 5))) None Undefined (Some ''a1'') exampleStore))) = [num (- 5)]"
      "map t_type (transactions (snd (post_expense exampleEnv (Some ''refund'')
                  (Num (num (- 5))) None Undefined (Some ''a1'') exampleStore))) = [''expense'']"
      "balanceOf (snd (post_expense exampleEnv (Some ''refund'') (Num (num (- 5))) None Undefined
                  (Some ''a1'') exampleStore)) 1 = Some (num 105)"
    by (simp_all add: post_expense_def inSession_def expense_unit_def truthy_str_def
          newTransaction_def transactionTypes_def enumOk_def dateField_def castRef_def
          findById_def saveBalance_def requiredNumber_Num js_sub_def num_sub_num num_inject
          num_not_NaN Let_def balanceOf_def exampleEnv_def exampleStore_def)
  have zero: "status (fst (post_expense exampleEnv (Some ''nothing'') (Str ''0'') None Undefined
                  (Some ''a1'') exampleStore)) = 200"
      "map t_amount (transactions (snd (post_expense exampleEnv (Some ''nothing'') (Str ''0'')
                  None Undefined (Some ''a1'') exampleStore))) = [num 0]"
    by (simp_all add: post_expense_def inSession_def expense_unit_def truthy_str_def
          newTransaction_def transactionTypes_def enumOk_def dateField_def castRef_def
          findById_def saveBalance_def requiredNumber_Num requiredNumber_Str js_sub_def
          num_sub_num num_inject num_not_NaN Let_def balanceOf_def exampleEnv_def
          exampleStore_def)
  have debt: "status (fst (post_debtTransaction exampleEnv ''d1'' (Some ''lend'') (Num (num 30))
                  None Undefined (Some ''expense'') (Some ''a1'') exampleStore)) = 201"
      "map t_type (transactions (snd (post_debtTransaction exampleEnv ''d1'' (Some ''lend'')
                  (Num (num 30)) None Undefined (Some ''expense'') (Some ''a1'') exampleStore)))
       = [''expense'']"
      "map t_sourceAccount (transactions (snd (post_debtTransaction exampleEnv ''d1''
                  (Some ''lend'') (Num (num 30)) None Undefined (Some ''expense'') (Some ''a1'')
                  exampleStore))) = [Some 1]"
      "map t_amount (transactions (snd (post_debtTransaction exampleEnv ''d1''
                  (Some ''lend'') (Num (num 30)) None Undefined (Some ''expense'') (Some ''a1'')
                  exampleStore))) = [num 30]"
      "balanceOf (snd (post_debtTransaction exampleEnv ''d1'' (Some ''lend'') (Num (num 30)) None
                  Undefined (Some ''expense'') (Some ''a1'') exampleStore)) 1 = Some (num 130)"
    by (simp_all add: post_debtTransaction_def inSession_def debtTransaction_unit_def
          truthy_str_def newTransaction_def transactionTypes_def enumOk_def dateField_def
          castRef_def findById_def saveBalance_def saveDebtAmounts_def requiredNumber_Num
          js_neg_def num_add_num num_neg_num num_inject num_not_NaN Let_def balanceOf_def
          exampleEnv_def exampleStore_def exampleDebt_def)
  have before: "balanceOf exampleStore 1 = Some (num 100)"
    by (simp add: balanceOf_def exampleStore_def)
  from less neg zero debt before show ?thesis by simp
qed

theorem persisted_amount_of_request_witness:
  "map t_amount (transactions (snd (handle exampleEnv
       (PostExpense (Some ''rent'') (Num (num 40)) None Undefined (Some ''a1'')) exampleStore)))
     = [num 40]
   \<and> num 40 \<noteq> num 0
   \<and> transactions (snd (handle exampleEnv
       (PostExpense (Some ''rent'') (Num (num 0)) None Undefined (Some ''a1'')) exampleStore)) = []
   \<and> num_less (num 0) (num 40)
   \<and> balanceOf exampleStore 1 = Some (num 100)
   \<and> isDouble (num 100)
   \<and> balanceOf (snd (post_expense exampleEnv (Some ''rent'') (Num (num 40)) None Undefined
                  (Some ''a1'') exampleStore)) 1 = Some (num 60)
   \<and> \<not> num_less (num 100) (num 60)"
proof -
  have zero: "transactions (snd (handle exampleEnv
       (PostExpense (Some ''rent'') (Num (num 0)) None Undefined (Some ''a1'')) exampleStore)) = []"
    by (simp add: post_expense_def inSession_def expense_unit_def exampleStore_def)
  have run: "map t_amount (transactions (snd (handle exampleEnv
       (PostExpense (Some ''rent'') (Num (num 40)) None Undefined (Some ''a1'')) exampleStore)))
     = [num 40]"
      "balanceOf (snd (post_expense exampleEnv (Some ''rent'') (Num (num 40)) None Undefined
                  (Some ''a1'') exampleStore)) 1 = Some (num 60)"
    by (simp_all add: post_expense_def inSession_def expense_unit_def truthy_str_def
          newTransaction_def transactionTypes_def enumOk_def dateField_def castRef_def
          findById_def saveBalance_def requiredNumber_Num js_sub_def num_sub_num num_inject
          num_not_NaN Let_def balanceOf_def exampleEnv_def exampleStore_def)
  have b: "balanceOf exampleStore 1 = Some (num 100)" "transactions exampleStore = []"
    by (simp_all add: balanceOf_def exampleStore_def)
  have pos: "num_less (num 0) (num 40)"
    using scale_pos by (simp add: num_exact)
  have dbl: "isDouble (num 100)"
    by (simp add: isDouble_num)
  note inst = persisted_amount_of_request [where e = exampleEnv and s = exampleStore
      and req = "PostExpense (Some ''rent'') (Num (num 40)) None Undefined (Some ''a1'')"
      and a = "num 40" and k = 1 and b = "num 100" and description = "Some ''rent''"
      and category = None and date = Undefined and sourceAccount = "Some ''a1''"
      and destinationAccount = "Some ''a2''"]
  from inst pos b(1) dbl have "\<exists>b'. balanceOf (snd (post_expense exampleEnv (Some ''rent'')
        (Num (num 40)) None Undefined (Some ''a1'') exampleStore)) 1 = Some b'
        \<and> \<not> num_less (num 100) b'"
    by blast
  with run(2) have dir: "\<not> num_less (num 100) (num 60)" by simp
  let ?ts = "transactions (snd (handle exampleEnv
       (PostExpense (Some ''rent'') (Num (num 40)) None Undefined (Some ''a1'')) exampleStore))"
  from inst [THEN conjunct1] b(2)
  have stored: "\<forall>t \<in> set ?ts. num 40 = t_amount t \<and> t_amount t \<noteq> num 0"
    by (auto simp del: handle.simps)
  from run(1) have "num 40 \<in> t_amount ` set ?ts"
    by (metis list.set_intros(1) set_map)
  with stored have nz: "num 40 \<noteq> num 0" by auto
  from run zero pos b(1) dbl dir nz show ?thesis by blast
qed

lemma findOneByAccountNumber_None:
  "findOneByAccountNumber coll n = None \<longleftrightarrow> (\<forall>(i, a) \<in> set coll. Some (accountNumber a) \<noteq> n)"
  by (auto simp: findOneByAccountNumber_def find_None_iff)

text \<open>
  C6. For every account-creation request whose accountNumber equals the accountNumber of an
  account already in the store, the request is rejected with a conflict outcome (status 400
  with the message that the number already exists) and no new BankAccount record is created;
  for every creation request with a fresh accountNumber, the created account's balance is 0:
  a non-empty fresh number and an unused \<^verbatim>\<open>_id\<close> give 201 and append the account with balance
  0, and whatever the request, the store is unchanged or has gained one account with
  balance 0.
\<close>

theorem bankAccount_creation:
  "((\<exists>(i, a) \<in> set (bankAccounts s). Some (accountNumber a) = accountNumber') \<longrightarrow>
       (\<exists>msg. post_bankAccount e accountNumber' s = (Response 400 (ErrorBody msg), s)
          \<and> (accountNumber' \<noteq> Some [] \<longrightarrow>
                msg = ''Account with the same account number already exists.'')))
   \<and> ((\<forall>(i, a) \<in> set (bankAccounts s). Some (accountNumber a) \<noteq> accountNumber')
        \<and> accountNumber' = Some n \<and> n \<noteq> [] \<and> map_of (bankAccounts s) (newObjectId e) = None \<longrightarrow>
         post_bankAccount e accountNumber' s
           = (Response 201 (BankAccountBody ''Bank account created successfully''
                (newObjectId e, \<lparr> accountNumber = n, balance = num 0 \<rparr>)),
              s\<lparr>bankAccounts := bankAccounts s
                   @ [(newObjectId e, \<lparr> accountNumber = n, balance = num 0 \<rparr>)]\<rparr>))
   \<and> (snd (post_bankAccount e accountNumber' s) = s
       \<or> (\<exists>m. snd (post_bankAccount e accountNumber' s)
                 = s\<lparr>bankAccounts := bankAccounts s
                      @ [(newObjectId e, \<lparr> accountNumber = m, balance = num 0 \<rparr>)]\<rparr>))"
proof (intro conjI impI)
  assume dup: "\<exists>(i, a) \<in> set (bankAccounts s). Some (accountNumber a) = accountNumber'"
  then have "findOneByAccountNumber (bankAccounts s) accountNumber' \<noteq> None"
    by (auto simp: findOneByAccountNumber_None)
  then show "\<exists>msg. post_bankAccount e accountNumber' s = (Response 400 (ErrorBody msg), s)
          \<and> (accountNumber' \<noteq> Some [] \<longrightarrow>
                msg = ''Account with the same account number already exists.'')"
    using dup by (auto simp: post_bankAccount_def truthy_str_def split: option.splits)
next
  assume "(\<forall>(i, a) \<in> set (bankAccounts s). Some (accountNumber a) \<noteq> accountNumber')
        \<and> accountNumber' = Some n \<and> n \<noteq> [] \<and> map_of (bankAccounts s) (newObjectId e) = None"
  then have "findOneByAccountNumber (bankAccounts s) accountNumber' = None
      \<and> accountNumber' = Some n \<and> n \<noteq> []
      \<and> map_of (bankAccounts s) (newObjectId e) = None"
    unfolding findOneByAccountNumber_None .
  then show "post_bankAccount e accountNumber' s
           = (Response 201 (BankAccountBody ''Bank account created successfully''
                (newObjectId e, \<lparr> accountNumber = n, balance = num 0 \<rparr>)),
              s\<lparr>bankAccounts := bankAccounts s
                   @ [(newObjectId e, \<lparr> accountNumber = n, balance = num 0 \<rparr>)]\<rparr>)"
    by (auto simp: post_bankAccount_def truthy_str_def newBankAccount_def insertDoc_def)
next
  show "snd (post_bankAccount e accountNumber' s) = s
       \<or> (\<exists>m. snd (post_bankAccount e accountNumber' s)
                 = s\<lparr>bankAccounts := bankAccounts s
                      @ [(newObjectId e, \<lparr> accountNumber = m, balance = num 0 \<rparr>)]\<rparr>)"
    by (auto simp: post_bankAccount_def truthy_str_def newBankAccount_def insertDoc_def
          split: option.splits)
qed

theorem bankAccount_creation_witness:
  "map (accountNumber \<circ> snd) (bankAccounts exampleStore) = [''A001'', ''A002'']
   \<and> post_bankAccount exampleEnv (Some ''A001'') exampleStore
       = (Response 400 (ErrorBody ''Account with the same account number already exists.''),
          exampleStore)
   \<and> post_bankAccount exampleEnv (Some ''A003'') exampleStore
       = (Response 201 (BankAccountBody ''Bank account created successfully''
            (20, \<lparr> accountNumber = ''A003'', balance = num 0 \<rparr>)),
          exampleStore\<lparr>bankAccounts := bankAccounts exampleStore
                      @ [(20, \<lparr> accountNumber = ''A003'', balance = num 0 \<rparr>)]\<rparr>)"
proof -
  have dup: "\<exists>(i, a) \<in> set (bankAccounts exampleStore). Some (accountNumber a) = Some ''A001''"
    by (simp add: exampleStore_def)
  have fresh: "\<forall>(i, a) \<in> set (bankAccounts exampleStore). Some (accountNumber a) \<noteq> Some ''A003''"
    by (simp add: exampleStore_def)
  have id: "map_of (bankAccounts exampleStore) (newObjectId exampleEnv) = None"
      "newObjectId exampleEnv = 20"
    by (simp_all add: exampleStore_def exampleEnv_def)
  have ne: "''A003'' \<noteq> []" "Some ''A001'' \<noteq> Some []" by simp_all
  note a = bankAccount_creation [where s = exampleStore and accountNumber' = "Some ''A001''"
      and e = exampleEnv]
  note b = bankAccount_creation [where s = exampleStore and accountNumber' = "Some ''A003''"
      and n = "''A003''" and e = exampleEnv]
  from a dup ne(2) have one: "post_bankAccount exampleEnv (Some ''A001'') exampleStore
       = (Response 400 (ErrorBody ''Account with the same account number already exists.''),
          exampleStore)"
    by blast
  from b fresh ne(1) id(1) have two: "post_bankAccount exampleEnv (Some ''A003'') exampleStore
           = (Response 201 (BankAccountBody ''Bank account created successfully''
                (newObjectId exampleEnv, \<lparr> accountNumber = ''A003'', balance = num 0 \<rparr>)),
              exampleStore\<lparr>bankAccounts := bankAccounts exampleStore
                   @ [(newObjectId exampleEnv, \<lparr> accountNumber = ''A003'', balance = num 0 \<rparr>)]\<rparr>)"
    by blast
  have nums: "map (accountNumber \<circ> snd) (bankAccounts exampleStore) = [''A001'', ''A002'']"
    by (simp add: exampleStore_def)
  from nums one two [unfolded id(2)] show ?thesis by blast
qed

text \<open>
  C7. For every update-status request on an existing debt whose newStatus value is outside
  {pending, settled} (or absent), the request is rejected with a 400 response and the debt's
  stored status is unchanged; if newStatus is in {pending, settled} and the debt exists, the
  stored status becomes exactly newStatus, and nothing else in the store changes.
\<close>

theorem updateStatus_effect:
  "(findById e (debts s) (Some debtId) = Inr (Some (i, d))
      \<and> newStatus \<noteq> Some ''pending'' \<and> newStatus \<noteq> Some ''settled'' \<longrightarrow>
        patch_updateStatus e debtId newStatus s
          = (Response 400 (ErrorBody ''Invalid status provided.''), s))
   \<and> (findById e (debts s) (Some debtId) = Inr (Some (i, d))
      \<and> (newStatus = Some ''pending'' \<or> newStatus = Some ''settled'') \<longrightarrow>
        (\<exists>st s'. newStatus = Some st
           \<and> patch_updateStatus e debtId newStatus s
               = (Response 200 (DebtBody ''Debt status updated successfully''
                    (i, d\<lparr>d_status := st\<rparr>)), s')
           \<and> debtOf s' i = Some (d\<lparr>d_status := st\<rparr>)
           \<and> statusOf s' i = newStatus
           \<and> (\<forall>k. k \<noteq> i \<longrightarrow> debtOf s' k = debtOf s k)
           \<and> bankAccounts s' = bankAccounts s \<and> transactions s' = transactions s))"
proof (intro conjI impI)
  assume "findById e (debts s) (Some debtId) = Inr (Some (i, d))
      \<and> newStatus \<noteq> Some ''pending'' \<and> newStatus \<noteq> Some ''settled''"
  then show "patch_updateStatus e debtId newStatus s
          = (Response 400 (ErrorBody ''Invalid status provided.''), s)"
    by (cases newStatus) (auto simp: patch_updateStatus_def js_includes_def)
next
  assume h: "findById e (debts s) (Some debtId) = Inr (Some (i, d))
      \<and> (newStatus = Some ''pending'' \<or> newStatus = Some ''settled'')"
  then obtain st where st: "newStatus = Some st" "st = ''pending'' \<or> st = ''settled''"
    by auto
  from h have m: "map_of (debts s) i = Some d" by (simp add: findById_Some)
  from h st have "patch_updateStatus e debtId newStatus s
               = (Response 200 (DebtBody ''Debt status updated successfully''
                    (i, d\<lparr>d_status := st\<rparr>)),
                  s\<lparr>debts := updateById i (d\<lparr>d_status := st\<rparr>) (debts s)\<rparr>)"
    by (auto simp: patch_updateStatus_def js_includes_def truthy_str_def saveStatus_def
          debtStatuses_def)
  with st m show "\<exists>st s'. newStatus = Some st
           \<and> patch_updateStatus e debtId newStatus s
               = (Response 200 (DebtBody ''Debt status updated successfully''
                    (i, d\<lparr>d_status := st\<rparr>)), s')
           \<and> debtOf s' i = Some (d\<lparr>d_status := st\<rparr>)
           \<and> statusOf s' i = newStatus
           \<and> (\<forall>k. k \<noteq> i \<longrightarrow> debtOf s' k = debtOf s k)
           \<and> bankAccounts s' = bankAccounts s \<and> transactions s' = transactions s"
    by (simp add: debtOf_def statusOf_def map_of_updateById)
qed

theorem updateStatus_effect_witness:
  "findById exampleEnv (debts exampleStore) (Some ''d1'')
      = Inr (Some (11, exampleDebt ''positive''))
   \<and> patch_updateStatus exampleEnv ''d1'' (Some ''paid'') exampleStore
       = (Response 400 (ErrorBody ''Invalid status provided.''), exampleStore)
   \<and> patch_updateStatus exampleEnv ''d1'' None exampleStore
       = (Response 400 (ErrorBody ''Invalid status provided.''), exampleStore)
   \<and> statusOf exampleStore 11 = Some ''pending''
   \<and> statusOf (snd (patch_updateStatus exampleEnv ''d1'' (Some ''settled'') exampleStore)) 11
       = Some ''settled''
   \<and> status (fst (patch_updateStatus exampleEnv ''d1'' (Some ''settled'') exampleStore)) = 200"
proof -
  have f: "findById exampleEnv (debts exampleStore) (Some ''d1'')
      = Inr (Some (11, exampleDebt ''positive''))"
    by (simp add: findById_def castRef_def exampleEnv_def exampleStore_def)
  have st: "statusOf exampleStore 11 = Some ''pending''"
    by (simp add: statusOf_def exampleStore_def exampleDebt_def)
  have ne: "Some ''paid'' \<noteq> Some ''pending''" "Some ''paid'' \<noteq> Some ''settled''"
     "None \<noteq> Some ''pending''" "None \<noteq> Some ''settled''"
    by simp_all
  note a = updateStatus_effect [where e = exampleEnv and s = exampleStore and debtId = "''d1''"
      and i = 11 and d = "exampleDebt ''positive''" and newStatus = "Some ''paid''"]
  note b = updateStatus_effect [where e = exampleEnv and s = exampleStore and debtId = "''d1''"
      and i = 11 and d = "exampleDebt ''positive''" and newStatus = None]
  note c = updateStatus_effect [where e = exampleEnv and s = exampleStore and debtId = "''d1''"
      and i = 11 and d = "exampleDebt ''positive''" and newStatus = "Some ''settled''"]
  from a f ne have one: "patch_updateStatus exampleEnv ''d1'' (Some ''paid'') exampleStore
       = (Response 400 (ErrorBody ''Invalid status provided.''), exampleStore)" by blast
  from b f ne have two: "patch_updateStatus exampleEnv ''d1'' None exampleStore
       = (Response 400 (ErrorBody ''Invalid status provided.''), exampleStore)" by blast
  from c f have three: "statusOf (snd (patch_updateStatus exampleEnv ''d1'' (Some ''settled'') exampleStore)) 11
       = Some ''settled''
   \<and> status (fst (patch_updateStatus exampleEnv ''d1'' (Some ''settled'') exampleStore)) = 200"
    by auto
  from f st one two three show ?thesis by blast
qed

text \<open>
  C8. No operation other than the update-status operation ever changes a Debt's status
  field: whatever the request and its outcome, every stored debt has afterwards the status
  it had before. In particular a successful debt-transaction operation leaves the debt's
  status unchanged even when it changes pendingAmount, and no value of pendingAmount
  (including zero) triggers an automatic transition to "settled".
\<close>

theorem status_frame:
  assumes "\<not> isUpdateStatus req" and "statusOf s i = Some st"
  shows "statusOf (snd (handle e req s)) i = Some st"
proof (cases req)
  case (PostExpense description amount category date sourceAccount)
  with assms(2) post_expense_store [of e description amount category date sourceAccount s]
  show ?thesis by (auto simp: statusOf_def)
next
  case (PostIncome description amount category date destinationAccount)
  with assms(2) post_income_store [of e description amount category date destinationAccount s]
  show ?thesis by (auto simp: statusOf_def)
next
  case (PostSelfTransfer amount sourceAccount destinationAccount description)
  with assms(2) post_selfTransfer_store [of e amount sourceAccount destinationAccount description s]
  show ?thesis by (auto simp: statusOf_def)
next
  case GetBankAccounts
  with assms(2) show ?thesis by (simp add: get_store)
next
  case (GetBankAccount accountId)
  with assms(2) show ?thesis by (simp add: get_store)
next
  case (PostBankAccount accountNumber')
  with assms(2) post_bankAccount_store [of e accountNumber' s]
  show ?thesis by (auto simp: statusOf_def)
next
  case (PatchUpdateBalance accountId newBalance)
  with assms(2) patch_updateBalance_store [of e accountId newBalance s]
  show ?thesis by (auto simp: statusOf_def)
next
  case (PostDebt b)
  with assms(2) post_debt_store [of e b s]
  show ?thesis by (auto simp: statusOf_def)
next
  case GetDebts
  with assms(2) show ?thesis by (simp add: get_store)
next
  case (GetDebt debtId)
  with assms(2) show ?thesis by (simp add: get_store)
next
  case (PatchUpdateStatus debtId newStatus)
  with assms(1) show ?thesis by (simp add: isUpdateStatus_def)
next
  case (PostDebtTransaction debtId description amount category date type sourceAccount)
  with assms(2)
    post_debtTransaction_store [of e debtId description amount category date type sourceAccount s]
  show ?thesis by (auto simp: statusOf_def map_of_updateById)
qed

theorem status_frame_witness:
  "\<not> isUpdateStatus (PostDebtTransaction ''d1'' (Some ''repay'') (Num (num (- 50))) None
        Undefined (Some ''debt'') (Some ''a1''))
   \<and> statusOf exampleStore 11 = Some ''pending''
   \<and> map_option d_pendingAmount (debtOf exampleStore 11) = Some (num 50)
   \<and> status (fst (handle exampleEnv
         (PostDebtTransaction ''d1'' (Some ''repay'') (Num (num (- 50))) None Undefined
            (Some ''debt'') (Some ''a1'')) exampleStore)) = 201
   \<and> map_option d_pendingAmount (debtOf (snd (handle exampleEnv
         (PostDebtTransaction ''d1'' (Some ''repay'') (Num (num (- 50))) None Undefined
            (Some ''debt'') (Some ''a1'')) exampleStore)) 11) = Some (num 0)
   \<and> statusOf (snd (handle exampleEnv
         (PostDebtTransaction ''d1'' (Some ''repay'') (Num (num (- 50))) None Undefined
            (Some ''debt'') (Some ''a1'')) exampleStore)) 11 = Some ''pending''"
proof -
  let ?req = "PostDebtTransaction ''d1'' (Some ''repay'') (Num (num (- 50))) None Undefined
        (Some ''debt'') (Some ''a1'')"
  have other: "\<not> isUpdateStatus ?req"
    by (simp add: isUpdateStatus_def)
  have before: "statusOf exampleStore 11 = Some ''pending''"
      "map_option d_pendingAmount (debtOf exampleStore 11) = Some (num 50)"
    by (simp_all add: statusOf_def debtOf_def exampleStore_def exampleDebt_def)
  have run: "status (fst (handle exampleEnv ?req exampleStore)) = 201"
      "map_option d_pendingAmount (debtOf (snd (handle exampleEnv ?req exampleStore)) 11)
         = Some (num 0)"
    by (simp_all add: post_debtTransaction_def inSession_def debtTransaction_unit_def
          truthy_str_def newTransaction_def transactionTypes_def castRef_def enumOk_def
          findById_def saveBalance_def saveDebtAmounts_def requiredNumber_Num dateField_def
          js_neg_def num_add_num num_neg_num num_inject num_not_NaN
          Let_def debtOf_def exampleEnv_def exampleStore_def exampleDebt_def)
  from status_frame [OF other before(1), of exampleEnv] other before run
  show ?thesis by blast
qed

text \<open>
  C9, as amended. For every update-balance request with newBalance equal to the number 0,
  the request is rejected with a 400 response and the account's stored balance is
  unchanged, even though 0 is a well-formed numeric value; a numeric newBalance can
  therefore never set the account's balance to exactly 0 through this endpoint: a request
  with a number that is answered with 200 stores that number, which is not 0, and an
  account whose balance is 0 after a request with a number had balance 0 before it. A
  string is accepted when it is non-empty and converts to a number, also to 0.
\<close>

theorem updateBalance_zero:
  "(newBalance = Num (num 0) \<longrightarrow>
      patch_updateBalance e accountId newBalance s
        = (Response 400 (ErrorBody ''New balance must be a valid number.''), s))
   \<and> (\<forall>n k. newBalance = Num n
          \<and> balanceOf (snd (patch_updateBalance e accountId newBalance s)) k = Some (num 0)
          \<longrightarrow> balanceOf s k = Some (num 0))
   \<and> (\<forall>n. newBalance = Num n
          \<and> status (fst (patch_updateBalance e accountId newBalance s)) = 200 \<longrightarrow>
        (\<exists>i. castObjectId e accountId = Some i \<and> n \<noteq> num 0
           \<and> balanceOf (snd (patch_updateBalance e accountId newBalance s)) i = Some n))
   \<and> (\<forall>v i b. newBalance = Str v \<and> v \<noteq> [] \<and> stringToNumber e v \<noteq> NaN
          \<and> castObjectId e accountId = Some i \<and> balanceOf s i = Some b \<longrightarrow>
        status (fst (patch_updateBalance e accountId newBalance s)) = 200
        \<and> balanceOf (snd (patch_updateBalance e accountId newBalance s)) i
            = Some (stringToNumber e v))"
proof (intro conjI)
  show "newBalance = Num (num 0) \<longrightarrow>
      patch_updateBalance e accountId newBalance s
        = (Response 400 (ErrorBody ''New balance must be a valid number.''), s)"
    by (simp add: patch_updateBalance_def)
next
  have "balanceOf s k = Some (num 0)" if "newBalance = Num n
    \<and> balanceOf (snd (patch_updateBalance e accountId newBalance s)) k = Some (num 0)"
    for n k
    using that
    by (auto simp: patch_updateBalance_def js_isNaN_def saveBalance_def requiredNumber_Num
          balanceOf_def map_of_updateById findById_def castRef_def
          split: if_splits option.splits sum.splits)
  then show "\<forall>n k. newBalance = Num n
          \<and> balanceOf (snd (patch_updateBalance e accountId newBalance s)) k = Some (num 0)
          \<longrightarrow> balanceOf s k = Some (num 0)"
    by blast
next
  have "\<exists>i. castObjectId e accountId = Some i \<and> n \<noteq> num 0
           \<and> balanceOf (snd (patch_updateBalance e accountId newBalance s)) i = Some n"
    if "newBalance = Num n
    \<and> status (fst (patch_updateBalance e accountId newBalance s)) = 200" for n
    using that
    by (auto simp: patch_updateBalance_def js_isNaN_def saveBalance_def requiredNumber_Num
          balanceOf_def map_of_updateById findById_def castRef_def
          split: if_splits option.splits sum.splits)
  then show "\<forall>n. newBalance = Num n
          \<and> status (fst (patch_updateBalance e accountId newBalance s)) = 200 \<longrightarrow>
        (\<exists>i. castObjectId e accountId = Some i \<and> n \<noteq> num 0
           \<and> balanceOf (snd (patch_updateBalance e accountId newBalance s)) i = Some n)"
    by blast
next
  have "status (fst (patch_updateBalance e accountId newBalance s)) = 200
        \<and> balanceOf (snd (patch_updateBalance e accountId newBalance s)) i
            = Some (stringToNumber e v)"
    if h: "newBalance = Str v \<and> v \<noteq> [] \<and> stringToNumber e v \<noteq> NaN
          \<and> castObjectId e accountId = Some i \<and> balanceOf s i = Some b" for v i b
  proof -
    from h obtain acc where "map_of (bankAccounts s) i = Some acc"
      by (auto simp: balanceOf_def)
    with h show ?thesis
      by (auto simp: patch_updateBalance_def js_isNaN_def saveBalance_def requiredNumber_Str
            balanceOf_def map_of_updateById findById_def castRef_def)
  qed
  then show "\<forall>v i b. newBalance = Str v \<and> v \<noteq> [] \<and> stringToNumber e v \<noteq> NaN
          \<and> castObjectId e accountId = Some i \<and> balanceOf s i = Some b \<longrightarrow>
        status (fst (patch_updateBalance e accountId newBalance s)) = 200
        \<and> balanceOf (snd (patch_updateBalance e accountId newBalance s)) i
            = Some (stringToNumber e v)"
    by blast
qed

text \<open>
  The claim as stated, that the balance can never be set to exactly 0 through this
  endpoint, fails: the request whose newBalance is the string \<^verbatim>\<open>"0"\<close> passes the guard
  \<^verbatim>\<open>!newBalance || isNaN(newBalance)\<close>, is answered with 200, and the balance of 100 becomes 0.
\<close>

theorem updateBalance_never_zero_counterexample:
  "status (fst (patch_updateBalance exampleEnv ''a1'' (Str ''0'') exampleStore)) = 200
   \<and> balanceOf exampleStore 1 = Some (num 100)
   \<and> balanceOf (snd (patch_updateBalance exampleEnv ''a1'' (Str ''0'') exampleStore)) 1
       = Some (num 0)
   \<and> num 100 \<noteq> num 0"
  by (simp add: patch_updateBalance_def js_isNaN_def saveBalance_def requiredNumber_Str
        findById_def castRef_def balanceOf_def num_inject num_not_NaN
        exampleEnv_def exampleStore_def)

theorem updateBalance_zero_witness:
  "patch_updateBalance exampleEnv ''a1'' (Num (num 0)) exampleStore
        = (Response 400 (ErrorBody ''New balance must be a valid number.''), exampleStore)
   \<and> balanceOf exampleStore 1 = Some (num 100)
   \<and> status (fst (patch_updateBalance exampleEnv ''a1'' (Num (num 7)) exampleStore)) = 200
   \<and> balanceOf (snd (patch_updateBalance exampleEnv ''a1'' (Num (num 7)) exampleStore)) 1
       = Some (num 7)
   \<and> num 7 \<noteq> num 0
   \<and> balanceOf (snd (patch_updateBalance exampleEnv ''a1'' (Num (num 7)) exampleStore)) 2
       = Some (num 0)
   \<and> balanceOf exampleStore 2 = Some (num 0)
   \<and> status (fst (patch_updateBalance exampleEnv ''a1'' (Str ''20'') exampleStore)) = 200
   \<and> balanceOf (snd (patch_updateBalance exampleEnv ''a1'' (Str ''20'') exampleStore)) 1
       = Some (num 20)"
proof -
  have b: "balanceOf exampleStore 1 = Some (num 100)"
    by (simp add: balanceOf_def exampleStore_def)
  have c: "castObjectId exampleEnv ''a1'' = Some 1"
    by (simp add: exampleEnv_def)
  have st: "''20'' \<noteq> []" "stringToNumber exampleEnv ''20'' = num 20"
      "stringToNumber exampleEnv ''20'' \<noteq> NaN"
    by (simp_all add: exampleEnv_def num_not_NaN)
  have ok: "status (fst (patch_updateBalance exampleEnv ''a1'' (Num (num 7)) exampleStore)) = 200"
    and two: "balanceOf (snd (patch_updateBalance exampleEnv ''a1'' (Num (num 7)) exampleStore)) 2
       = Some (num 0)"
    by (simp_all add: patch_updateBalance_def js_isNaN_def saveBalance_def requiredNumber_Num
          findById_def castRef_def num_inject num_not_NaN
          exampleEnv_def exampleStore_def balanceOf_def)
  note a = updateBalance_zero [where newBalance = "Num (num 0)" and e = exampleEnv
      and accountId = "''a1''" and s = exampleStore]
  note d = updateBalance_zero [where newBalance = "Num (num 7)" and e = exampleEnv
      and accountId = "''a1''" and s = exampleStore]
  note f = updateBalance_zero [where newBalance = "Str ''20''" and e = exampleEnv
      and accountId = "''a1''" and s = exampleStore]
  from a have one: "patch_updateBalance exampleEnv ''a1'' (Num (num 0)) exampleStore
        = (Response 400 (ErrorBody ''New balance must be a valid number.''), exampleStore)"
    by blast
  from d ok c have three:
    "balanceOf (snd (patch_updateBalance exampleEnv ''a1'' (Num (num 7)) exampleStore)) 1
       = Some (num 7) \<and> num 7 \<noteq> num 0"
    by auto
  from d two have four: "balanceOf exampleStore 2 = Some (num 0)" by blast
  from f st c b have five:
    "status (fst (patch_updateBalance exampleEnv ''a1'' (Str ''20'') exampleStore)) = 200
     \<and> balanceOf (snd (patch_updateBalance exampleEnv ''a1'' (Str ''20'') exampleStore)) 1
       = Some (num 20)"
    by (metis (no_types))
  from one b ok three two four five show ?thesis by blast
qed

text \<open>
  C10. For every debt-creation request that passes field validation (description,
  totalAmount, status, type, and the debtor/creditor presence rule) but omits settledAmount
  or pendingAmount (the field is absent or \<^verbatim>\<open>null\<close>), the request is not rejected with a 400
  validation response; it fails only at the persistence step, producing a 500 response and
  creating no Debt record.
\<close>

theorem debt_creation_missing_amounts:
  assumes "truthy_str (b_description b)" and "truthy (b_totalAmount b)"
    and "truthy_str (b_status b)" and "truthy_str (b_type b)"
    and "truthy_str (b_debtor b) \<or> truthy_str (b_debtorAccount b)"
    and "truthy_str (b_creditor b) \<or> truthy_str (b_creditorAccount b)"
    and "b_settledAmount b = Undefined \<or> b_settledAmount b = Null
         \<or> b_pendingAmount b = Undefined \<or> b_pendingAmount b = Null"
  shows "post_debt e b s = (Response 500 (ErrorBody ''Internal Server Error''), s)"
proof -
  from assms(7) have "requiredNumber e (b_settledAmount b) = Inl ValidationError
      \<or> requiredNumber e (b_pendingAmount b) = Inl ValidationError"
    by (auto simp: requiredNumber_def)
  then have "newDebt e b = Inl ValidationError"
    by (auto simp: newDebt_def split: option.splits sum.splits)
  with assms(1-6) show ?thesis
    by (simp add: post_debt_def)
qed

theorem debt_creation_missing_amounts_witness:
  "post_debt exampleEnv exampleDebtBody exampleStore
     = (Response 500 (ErrorBody ''Internal Server Error''), exampleStore)
   \<and> status (fst (post_debt exampleEnv (exampleDebtBody\<lparr>b_settledAmount := Num (num 0)\<rparr>)
        exampleStore)) = 201"
proof -
  have g: "truthy_str (b_description exampleDebtBody)" "truthy (b_totalAmount exampleDebtBody)"
    "truthy_str (b_status exampleDebtBody)" "truthy_str (b_type exampleDebtBody)"
    "truthy_str (b_debtor exampleDebtBody) \<or> truthy_str (b_debtorAccount exampleDebtBody)"
    "truthy_str (b_creditor exampleDebtBody) \<or> truthy_str (b_creditorAccount exampleDebtBody)"
    "b_settledAmount exampleDebtBody = Undefined \<or> b_settledAmount exampleDebtBody = Null
       \<or> b_pendingAmount exampleDebtBody = Undefined \<or> b_pendingAmount exampleDebtBody = Null"
    by (simp_all add: exampleDebtBody_def truthy_str_def num_inject num_not_NaN)
  have ok: "status (fst (post_debt exampleEnv (exampleDebtBody\<lparr>b_settledAmount := Num (num 0)\<rparr>)
        exampleStore)) = 201"
    by (simp add: post_debt_def newDebt_def exampleDebtBody_def truthy_str_def
          requiredNumber_Num num_inject num_not_NaN intervalField_def nextDueDateField_def
          enumOk_def debtStatuses_def debtTypes_def castRef_def insertDoc_def
          exampleEnv_def exampleStore_def)
  from debt_creation_missing_amounts [OF g, of exampleEnv exampleStore] ok
  show ?thesis by blast
qed

end
